theory Spec2Isabelle
  imports Main "HOL-Library.Word" "HOL-Library.Sublist"
begin

section \<open>The TODO API: data model\<close>

text \<open>
  The service of \<^verbatim>\<open>main.py\<close> keeps three process-wide lists (tasks, projects, users)
  and answers nine HTTP routes over them. Identifiers are 128-bit UUIDs. Python's
  \<^verbatim>\<open>UUID\<close> defines neither \<^verbatim>\<open>__bool__\<close> nor \<^verbatim>\<open>__len__\<close>, so every UUID, the nil
  UUID included, is truthy; the same holds for the pydantic models.
\<close>

type_synonym UUID = "128 word"

text \<open>
  The pydantic models. \<^verbatim>\<open>class Task(TaskCreate)\<close> adds the field \<^verbatim>\<open>id\<close> to the
  fields of \<^verbatim>\<open>TaskCreate\<close>; the field is written \<open>id'\<close> here, \<open>id\<close> being the
  identity function of HOL. Fields of the same name in different models are told
  apart by the model's name (\<open>Task.id'\<close>, \<open>Project.id'\<close>, \<open>User.id'\<close>).
\<close>

record TaskCreate =
  title :: string
  description :: "string option"
  completed :: bool
  project_id :: UUID

record Task = TaskCreate +
  id' :: UUID

record ProjectCreate =
  name :: string
  user_id :: UUID

record Project = ProjectCreate +
  id' :: UUID

record UserCreate =
  name :: string

record User = UserCreate +
  id' :: UUID

text \<open>\<^verbatim>\<open>HTTPException(status_code=..., detail=...)\<close>, raised by the routes.\<close>

datatype HTTPException = HTTPException (status_code: int) (detail: string)

section \<open>The in-memory repositories\<close>

record TaskRepository =
  tasks :: "Task list"

record ProjectRepository =
  projects :: "Project list"

record UserRepository =
  users :: "User list"

text \<open>
  The field \<^verbatim>\<open>id\<close> of \<^verbatim>\<open>Task\<close>, \<^verbatim>\<open>Project\<close> and \<^verbatim>\<open>User\<close> has
  \<^verbatim>\<open>default_factory=uuid4\<close>: when a model is built from a payload without an
  \<^verbatim>\<open>id\<close>, pydantic calls \<^verbatim>\<open>uuid4()\<close>. The value of that call comes from the
  operating system's random source; it is an argument \<open>uuid4\<close> of every function
  that builds such a model.
\<close>

subsection \<open>TaskRepository\<close>

definition TaskRepository_init :: TaskRepository where
  "TaskRepository_init = \<lparr>tasks = []\<rparr>"

definition TaskRepository_list :: "TaskRepository \<Rightarrow> Task list" where
  "TaskRepository_list self = tasks self"

text \<open>\<^verbatim>\<open>for task in self.tasks: if task.id == task_id: return task\<close>, then \<^verbatim>\<open>return None\<close>.\<close>

fun get_loop :: "Task list \<Rightarrow> UUID \<Rightarrow> Task option" where
  "get_loop [] task_id = None"
| "get_loop (task # rest) task_id =
     (if Task.id' task = task_id then Some task else get_loop rest task_id)"

definition TaskRepository_get :: "TaskRepository \<Rightarrow> UUID \<Rightarrow> Task option" where
  "TaskRepository_get self task_id = get_loop (tasks self) task_id"

text \<open>\<^verbatim>\<open>task = Task(**task_data.dict()); self.tasks.append(task); return task\<close>\<close>

definition TaskRepository_create ::
  "UUID \<Rightarrow> TaskRepository \<Rightarrow> TaskCreate \<Rightarrow> Task \<times> TaskRepository" where
  "TaskRepository_create uuid4 self task_data =
     (let task = \<lparr>title = title task_data, description = description task_data,
                  completed = completed task_data, project_id = project_id task_data,
                  Task.id' = uuid4\<rparr>
      in (task, self\<lparr>tasks := tasks self @ [task]\<rparr>))"

text \<open>
  \<^verbatim>\<open>for i, task in enumerate(self.tasks)\<close>: the loop of \<^verbatim>\<open>update\<close> at index \<open>i\<close>.
  At the first match it assigns \<^verbatim>\<open>self.tasks[i] = new_task\<close> and returns
  \<^verbatim>\<open>new_task\<close>; when the list is exhausted it returns \<^verbatim>\<open>None\<close>.
\<close>

function update_loop :: "Task list \<Rightarrow> nat \<Rightarrow> UUID \<Rightarrow> Task \<Rightarrow> Task option \<times> Task list" where
  "update_loop ts i task_id new_task =
     (if i < length ts
      then (if Task.id' (ts ! i) = task_id
            then (Some new_task, ts[i := new_task])
            else update_loop ts (Suc i) task_id new_task)
      else (None, ts))"
  by pat_completeness auto
termination
  by (relation "measure (\<lambda>(ts, i, task_id, new_task). length ts - i)") auto

definition TaskRepository_update ::
  "TaskRepository \<Rightarrow> UUID \<Rightarrow> Task \<Rightarrow> Task option \<times> TaskRepository" where
  "TaskRepository_update self task_id new_task =
     (case update_loop (tasks self) 0 task_id new_task of
        (r, ts) \<Rightarrow> (r, self\<lparr>tasks := ts\<rparr>))"

text \<open>
  The loop of \<^verbatim>\<open>delete\<close>: at the first match \<^verbatim>\<open>del self.tasks[i]\<close> and
  \<^verbatim>\<open>return True\<close>; otherwise \<^verbatim>\<open>return False\<close>.
\<close>

function delete_loop :: "Task list \<Rightarrow> nat \<Rightarrow> UUID \<Rightarrow> bool \<times> Task list" where
  "delete_loop ts i task_id =
     (if i < length ts
      then (if Task.id' (ts ! i) = task_id
            then (True, take i ts @ drop (Suc i) ts)
            else delete_loop ts (Suc i) task_id)
      else (False, ts))"
  by pat_completeness auto
termination
  by (relation "measure (\<lambda>(ts, i, task_id). length ts - i)") auto

definition TaskRepository_delete :: "TaskRepository \<Rightarrow> UUID \<Rightarrow> bool \<times> TaskRepository" where
  "TaskRepository_delete self task_id =
     (case delete_loop (tasks self) 0 task_id of
        (r, ts) \<Rightarrow> (r, self\<lparr>tasks := ts\<rparr>))"

subsection \<open>ProjectRepository\<close>

definition ProjectRepository_init :: ProjectRepository where
  "ProjectRepository_init = \<lparr>projects = []\<rparr>"

definition ProjectRepository_list :: "ProjectRepository \<Rightarrow> Project list" where
  "ProjectRepository_list self = projects self"

definition ProjectRepository_create ::
  "UUID \<Rightarrow> ProjectRepository \<Rightarrow> ProjectCreate \<Rightarrow> Project \<times> ProjectRepository" where
  "ProjectRepository_create uuid4 self project_data =
     (let project = \<lparr>ProjectCreate.name = ProjectCreate.name project_data,
                     user_id = user_id project_data, Project.id' = uuid4\<rparr>
      in (project, self\<lparr>projects := projects self @ [project]\<rparr>))"

subsection \<open>UserRepository\<close>

definition UserRepository_init :: UserRepository where
  "UserRepository_init = \<lparr>users = []\<rparr>"


definition UserRepository_create ::
  "UUID \<Rightarrow> UserRepository \<Rightarrow> UserCreate \<Rightarrow> User \<times> UserRepository" where
  "UserRepository_create uuid4 self user_data =
     (let user = \<lparr>UserCreate.name = UserCreate.name user_data, User.id' = uuid4\<rparr>
      in (user, self\<lparr>users := users self @ [user]\<rparr>))"

section \<open>The repository instances and the routes\<close>

text \<open>
  The module-level instances \<^verbatim>\<open>task_repo\<close>, \<^verbatim>\<open>project_repo\<close> and \<^verbatim>\<open>user_repo\<close>
  are the state of the process. A route that writes takes the state and returns
  its answer with the new state; a \<^verbatim>\<open>raise HTTPException\<close> is the answer \<open>Inl\<close>.
\<close>

record app_state =
  task_repo :: TaskRepository
  project_repo :: ProjectRepository
  user_repo :: UserRepository

definition init_state :: app_state where
  "init_state = \<lparr>task_repo = TaskRepository_init,
                 project_repo = ProjectRepository_init,
                 user_repo = UserRepository_init\<rparr>"

text \<open>\<^verbatim>\<open>GET /tasks\<close>; \<^verbatim>\<open>if project_id:\<close> holds for every UUID that is given.\<close>

definition get_tasks :: "UUID option \<Rightarrow> app_state \<Rightarrow> Task list" where
  "get_tasks project_id_q s =
     (let ts = TaskRepository_list (task_repo s)
      in case project_id_q of
           None \<Rightarrow> ts
         | Some pid \<Rightarrow> filter (\<lambda>t. project_id t = pid) ts)"

text \<open>\<^verbatim>\<open>POST /tasks\<close>\<close>

definition create_task ::
  "UUID \<Rightarrow> TaskCreate \<Rightarrow> app_state \<Rightarrow> (HTTPException + Task) \<times> app_state" where
  "create_task uuid4 task s =
     (if \<not> list_ex (\<lambda>p. Project.id' p = project_id task) (projects (project_repo s))
      then (Inl (HTTPException 400 ''Project does not exist''), s)
      else (case TaskRepository_create uuid4 (task_repo s) task of
              (t, repo) \<Rightarrow> (Inr t, s\<lparr>task_repo := repo\<rparr>)))"

text \<open>\<^verbatim>\<open>GET /tasks/{task_id}\<close>\<close>

definition get_task :: "UUID \<Rightarrow> app_state \<Rightarrow> HTTPException + Task" where
  "get_task task_id s =
     (case TaskRepository_get (task_repo s) task_id of
        None \<Rightarrow> Inl (HTTPException 404 ''Task not found'')
      | Some task \<Rightarrow> Inr task)"

text \<open>\<^verbatim>\<open>PUT /tasks/{task_id}\<close>: the project check comes before the update.\<close>

definition update_task ::
  "UUID \<Rightarrow> Task \<Rightarrow> app_state \<Rightarrow> (HTTPException + Task) \<times> app_state" where
  "update_task task_id task s =
     (if \<not> list_ex (\<lambda>p. Project.id' p = project_id task) (projects (project_repo s))
      then (Inl (HTTPException 400 ''Project does not exist''), s)
      else (case TaskRepository_update (task_repo s) task_id task of
              (None, repo) \<Rightarrow>
                (Inl (HTTPException 404 ''Task not found''), s\<lparr>task_repo := repo\<rparr>)
            | (Some updated, repo) \<Rightarrow> (Inr updated, s\<lparr>task_repo := repo\<rparr>)))"

text \<open>\<^verbatim>\<open>DELETE /tasks/{task_id}\<close>; the answer is the dict \<^verbatim>\<open>{"message": "Task deleted"}\<close>.\<close>

definition delete_task ::
  "UUID \<Rightarrow> app_state \<Rightarrow> (HTTPException + (string \<times> string) list) \<times> app_state" where
  "delete_task task_id s =
     (case TaskRepository_delete (task_repo s) task_id of
        (False, repo) \<Rightarrow>
          (Inl (HTTPException 404 ''Task not found''), s\<lparr>task_repo := repo\<rparr>)
      | (True, repo) \<Rightarrow>
          (Inr [(''message'', ''Task deleted'')], s\<lparr>task_repo := repo\<rparr>))"

text \<open>\<^verbatim>\<open>GET /projects\<close>\<close>

definition get_projects :: "UUID option \<Rightarrow> app_state \<Rightarrow> Project list" where
  "get_projects user_id_q s =
     (let ps = ProjectRepository_list (project_repo s)
      in case user_id_q of
           None \<Rightarrow> ps
         | Some uid \<Rightarrow> filter (\<lambda>p. user_id p = uid) ps)"

text \<open>\<^verbatim>\<open>POST /projects\<close>\<close>

definition create_project ::
  "UUID \<Rightarrow> ProjectCreate \<Rightarrow> app_state \<Rightarrow> (HTTPException + Project) \<times> app_state" where
  "create_project uuid4 project s =
     (if \<not> list_ex (\<lambda>u. User.id' u = user_id project) (users (user_repo s))
      then (Inl (HTTPException 400 ''User does not exist''), s)
      else (case ProjectRepository_create uuid4 (project_repo s) project of
              (p, repo) \<Rightarrow> (Inr p, s\<lparr>project_repo := repo\<rparr>)))"


definition create_user ::
  "UUID \<Rightarrow> UserCreate \<Rightarrow> app_state \<Rightarrow> (HTTPException + User) \<times> app_state" where
  "create_user uuid4 user s =
     (case UserRepository_create uuid4 (user_repo s) user of
        (u, repo) \<Rightarrow> (Inr u, s\<lparr>user_repo := repo\<rparr>))"

text \<open>
  No route decorator sets a \<^verbatim>\<open>status_code\<close>, so FastAPI answers a value that a
  route returns with status 200, and a raised \<^verbatim>\<open>HTTPException\<close> with its own status.
\<close>

definition response_status :: "HTTPException + 'a \<Rightarrow> int" where
  "response_status r = (case r of Inl e \<Rightarrow> status_code e | Inr v \<Rightarrow> 200)"

section \<open>Requests and reachable states\<close>

text \<open>
  One constructor for each route. A \<^verbatim>\<open>POST\<close> carries, besides its payload, the
  value that \<^verbatim>\<open>uuid4()\<close> returns while the request is served. The body of
  \<^verbatim>\<open>PUT /tasks/{task_id}\<close> is a full \<^verbatim>\<open>Task\<close>, its \<^verbatim>\<open>id\<close> included: the
  \<^verbatim>\<open>id\<close> that the client sent or, when the body has none, the one that pydantic
  draws with \<^verbatim>\<open>uuid4()\<close>; the route compares neither with the path.
\<close>

datatype request =
    GET_tasks "UUID option"
  | POST_tasks UUID TaskCreate
  | GET_task UUID
  | PUT_task UUID Task
  | DELETE_task UUID
  | GET_projects "UUID option"
  | POST_projects UUID ProjectCreate
  | GET_users
  | POST_users UUID UserCreate

text \<open>The state that a request leaves behind.\<close>

fun handle :: "request \<Rightarrow> app_state \<Rightarrow> app_state" where
  "handle (GET_tasks q) s = s"
| "handle (POST_tasks uuid4 task) s = snd (create_task uuid4 task s)"
| "handle (GET_task task_id) s = s"
| "handle (PUT_task task_id task) s = snd (update_task task_id task s)"
| "handle (DELETE_task task_id) s = snd (delete_task task_id s)"
| "handle (GET_projects q) s = s"
| "handle (POST_projects uuid4 project) s = snd (create_project uuid4 project s)"
| "handle GET_users s = s"
| "handle (POST_users uuid4 user) s = snd (create_user uuid4 user s)"

fun run :: "request list \<Rightarrow> app_state \<Rightarrow> app_state" where
  "run [] s = s"
| "run (r # rs) s = run rs (handle r s)"

text \<open>
  \<open>uuid4_fresh r s\<close>: the value that \<^verbatim>\<open>uuid4()\<close> returns for the request \<open>r\<close> is the
  identifier of no record of the collection that \<open>r\<close> appends to. The code never
  checks this; it is what the generator promises.
\<close>

fun uuid4_fresh :: "request \<Rightarrow> app_state \<Rightarrow> bool" where
  "uuid4_fresh (POST_tasks uuid4 task) s =
     (uuid4 \<notin> set (map Task.id' (tasks (task_repo s))))"
| "uuid4_fresh (POST_projects uuid4 project) s =
     (uuid4 \<notin> set (map Project.id' (projects (project_repo s))))"
| "uuid4_fresh (POST_users uuid4 user) s =
     (uuid4 \<notin> set (map User.id' (users (user_repo s))))"
| "uuid4_fresh r s = True"

text \<open>
  The conditions under which a request keeps the identifiers of a collection
  pairwise distinct. A \<^verbatim>\<open>POST\<close> that is accepted must draw a value that is the
  \<^verbatim>\<open>id\<close> of no record of its collection; a rejected one draws nothing. A
  \<^verbatim>\<open>PUT /tasks/{task_id}\<close> that is carried out (its project and a Task with the
  \<^verbatim>\<open>id\<close> \<open>task_id\<close> exist) must carry a body whose \<^verbatim>\<open>id\<close> is \<open>task_id\<close> or the
  \<^verbatim>\<open>id\<close> of no stored Task. The code checks none of these.
\<close>

fun keeps_user_ids :: "request \<Rightarrow> app_state \<Rightarrow> bool" where
  "keeps_user_ids (POST_users uuid4 user) s =
     (uuid4 \<notin> set (map User.id' (users (user_repo s))))"
| "keeps_user_ids r s = True"

fun keeps_project_ids :: "request \<Rightarrow> app_state \<Rightarrow> bool" where
  "keeps_project_ids (POST_projects uuid4 project) s =
     (list_ex (\<lambda>u. User.id' u = user_id project) (users (user_repo s)) \<longrightarrow>
      uuid4 \<notin> set (map Project.id' (projects (project_repo s))))"
| "keeps_project_ids r s = True"

fun keeps_task_ids :: "request \<Rightarrow> app_state \<Rightarrow> bool" where
  "keeps_task_ids (POST_tasks uuid4 task) s =
     (list_ex (\<lambda>p. Project.id' p = project_id task) (projects (project_repo s)) \<longrightarrow>
      uuid4 \<notin> set (map Task.id' (tasks (task_repo s))))"
| "keeps_task_ids (PUT_task task_id task) s =
     (list_ex (\<lambda>p. Project.id' p = project_id task) (projects (project_repo s)) \<and>
      task_id \<in> set (map Task.id' (tasks (task_repo s))) \<longrightarrow>
      Task.id' task = task_id \<or> Task.id' task \<notin> set (map Task.id' (tasks (task_repo s))))"
| "keeps_task_ids r s = True"

text \<open>
  The states reachable from the empty stores by requests that satisfy \<open>ok\<close> in
  the state where they arrive; \<open>reachable\<close> admits every request.
\<close>

inductive reachable_by :: "(request \<Rightarrow> app_state \<Rightarrow> bool) \<Rightarrow> app_state \<Rightarrow> bool"
  for ok :: "request \<Rightarrow> app_state \<Rightarrow> bool" where
  init: "reachable_by ok init_state"
| step: "reachable_by ok s \<Longrightarrow> ok r s \<Longrightarrow> reachable_by ok (handle r s)"

definition reachable :: "app_state \<Rightarrow> bool" where
  "reachable = reachable_by (\<lambda>r s. True)"

text \<open>\<open>all_ok ok rs s\<close>: each request of \<open>rs\<close>, served in turn from \<open>s\<close>, satisfies \<open>ok\<close>.\<close>

fun all_ok :: "(request \<Rightarrow> app_state \<Rightarrow> bool) \<Rightarrow> request list \<Rightarrow> app_state \<Rightarrow> bool" where
  "all_ok ok [] s = True"
| "all_ok ok (r # rs) s = (ok r s \<and> all_ok ok rs (handle r s))"

section \<open>A concrete scenario\<close>

text \<open>
  The scenario of the specification: a user, a project of that user and tasks of
  that project, created in this order from the empty stores. The identifiers
  1, 2, 3 and 4 stand for the four values returned by \<^verbatim>\<open>uuid4()\<close>.
\<close>

definition example_requests :: "request list" where
  "example_requests =
     [POST_users 1 \<lparr>UserCreate.name = ''Ann''\<rparr>,
      POST_projects 2 \<lparr>ProjectCreate.name = ''P'', user_id = 1\<rparr>,
      POST_tasks 3 \<lparr>title = ''T'', description = None, completed = False, project_id = 2\<rparr>,
      POST_tasks 4 \<lparr>title = ''U'', description = None, completed = False, project_id = 2\<rparr>]"

definition example_state :: app_state where
  "example_state = run example_requests init_state"

text \<open>A full \<^verbatim>\<open>Task\<close> body for \<^verbatim>\<open>PUT\<close>, whose \<^verbatim>\<open>id\<close> is 4.\<close>

definition example_payload :: Task where
  "example_payload =
     \<lparr>title = ''T'', description = Some ''done'', completed = True, project_id = 2,
      Task.id' = 4\<rparr>"

section \<open>The scanning loops\<close>

text \<open>
  The defining equations of the two index loops recur without a guard, so they
  are taken out of the simplifier's set and used one step at a time.
\<close>

declare update_loop.simps [simp del]
declare delete_loop.simps [simp del]

lemma update_loop_miss:
  "\<forall>j. i \<le> j \<and> j < length ts \<longrightarrow> Task.id' (ts ! j) \<noteq> task_id \<Longrightarrow>
   update_loop ts i task_id new_task = (None, ts)"
proof (induction ts i task_id new_task rule: update_loop.induct)
  case (1 ts i task_id new_task)
  show ?case
  proof (cases "i < length ts")
    case True
    with 1 show ?thesis
      by (subst update_loop.simps) auto
  next
    case False
    then show ?thesis by (subst update_loop.simps) simp
  qed
qed

lemma update_loop_hit:
  "i \<le> k \<Longrightarrow> k < length ts \<Longrightarrow> Task.id' (ts ! k) = task_id \<Longrightarrow>
   \<forall>j. i \<le> j \<and> j < k \<longrightarrow> Task.id' (ts ! j) \<noteq> task_id \<Longrightarrow>
   update_loop ts i task_id new_task = (Some new_task, ts[k := new_task])"
proof (induction ts i task_id new_task rule: update_loop.induct)
  case (1 ts i task_id new_task)
  show ?case
  proof (cases "i = k")
    case True
    with 1 show ?thesis by (subst update_loop.simps) simp
  next
    case False
    with 1 have "i < k" "Task.id' (ts ! i) \<noteq> task_id" "i < length ts" by auto
    with 1 show ?thesis by (subst update_loop.simps) auto
  qed
qed

lemma delete_loop_miss:
  "\<forall>j. i \<le> j \<and> j < length ts \<longrightarrow> Task.id' (ts ! j) \<noteq> task_id \<Longrightarrow>
   delete_loop ts i task_id = (False, ts)"
proof (induction ts i task_id rule: delete_loop.induct)
  case (1 ts i task_id)
  show ?case
  proof (cases "i < length ts")
    case True
    with 1 show ?thesis
      by (subst delete_loop.simps) auto
  next
    case False
    then show ?thesis by (subst delete_loop.simps) simp
  qed
qed

lemma delete_loop_hit:
  "i \<le> k \<Longrightarrow> k < length ts \<Longrightarrow> Task.id' (ts ! k) = task_id \<Longrightarrow>
   \<forall>j. i \<le> j \<and> j < k \<longrightarrow> Task.id' (ts ! j) \<noteq> task_id \<Longrightarrow>
   delete_loop ts i task_id = (True, take k ts @ drop (Suc k) ts)"
proof (induction ts i task_id rule: delete_loop.induct)
  case (1 ts i task_id)
  show ?case
  proof (cases "i = k")
    case True
    with 1 show ?thesis by (subst delete_loop.simps) simp
  next
    case False
    with 1 have "i < k" "Task.id' (ts ! i) \<noteq> task_id" "i < length ts" by auto
    with 1 show ?thesis by (subst delete_loop.simps) auto
  qed
qed

lemma update_loop_first:
  assumes "\<forall>x\<in>set pre. Task.id' x \<noteq> task_id" and "Task.id' t = task_id"
  shows "update_loop (pre @ t # post) 0 task_id new_task = (Some new_task, pre @ new_task # post)"
proof -
  have "update_loop (pre @ t # post) 0 task_id new_task
        = (Some new_task, (pre @ t # post)[length pre := new_task])"
  proof (rule update_loop_hit)
    show "\<forall>j. 0 \<le> j \<and> j < length pre \<longrightarrow> Task.id' ((pre @ t # post) ! j) \<noteq> task_id"
      using assms(1) by (simp add: nth_append)
  qed (use assms(2) in simp_all)
  then show ?thesis by simp
qed

lemma delete_loop_first:
  assumes "\<forall>x\<in>set pre. Task.id' x \<noteq> task_id" and "Task.id' t = task_id"
  shows "delete_loop (pre @ t # post) 0 task_id = (True, pre @ post)"
proof -
  have "delete_loop (pre @ t # post) 0 task_id
        = (True, take (length pre) (pre @ t # post) @ drop (Suc (length pre)) (pre @ t # post))"
  proof (rule delete_loop_hit)
    show "\<forall>j. 0 \<le> j \<and> j < length pre \<longrightarrow> Task.id' ((pre @ t # post) ! j) \<noteq> task_id"
      using assms(1) by (simp add: nth_append)
  qed (use assms(2) in simp_all)
  then show ?thesis by simp
qed

lemma update_loop_absent:
  "\<forall>x\<in>set ts. Task.id' x \<noteq> task_id \<Longrightarrow> update_loop ts 0 task_id new_task = (None, ts)"
  by (rule update_loop_miss) simp

lemma delete_loop_absent:
  "\<forall>x\<in>set ts. Task.id' x \<noteq> task_id \<Longrightarrow> delete_loop ts 0 task_id = (False, ts)"
  by (rule delete_loop_miss) simp

text \<open>
  The two loops unfolded at the head of the list: the equations by which the
  simplifier runs them on a given list.
\<close>

lemma update_loop_Nil: "update_loop [] 0 task_id new_task = (None, [])"
  by (rule update_loop_absent) simp

lemma update_loop_Cons:
  "update_loop (t # ts) 0 task_id new_task =
     (if Task.id' t = task_id then (Some new_task, new_task # ts)
      else (case update_loop ts 0 task_id new_task of (r, ts') \<Rightarrow> (r, t # ts')))"
proof (cases "Task.id' t = task_id")
  case True
  then show ?thesis using update_loop_first [of "[]" task_id t ts new_task] by simp
next
  case False
  show ?thesis
  proof (cases "\<exists>x\<in>set ts. Task.id' x = task_id")
    case True
    then obtain pre x post where ts: "ts = pre @ x # post" and x: "Task.id' x = task_id"
      and pre: "\<forall>y\<in>set pre. Task.id' y \<noteq> task_id"
      using split_list_first_prop [of ts "\<lambda>x. Task.id' x = task_id"] by blast
    have "update_loop ((t # pre) @ x # post) 0 task_id new_task = (Some new_task, (t # pre) @ new_task # post)"
      by (rule update_loop_first) (use False pre x in auto)
    moreover have "update_loop (pre @ x # post) 0 task_id new_task = (Some new_task, pre @ new_task # post)"
      by (rule update_loop_first) (use pre x in auto)
    ultimately show ?thesis using False ts by simp
  next
    case no: False
    then show ?thesis using False
      by (simp add: update_loop_absent)
  qed
qed

lemma delete_loop_Nil: "delete_loop [] 0 task_id = (False, [])"
  by (rule delete_loop_absent) simp

lemma delete_loop_Cons:
  "delete_loop (t # ts) 0 task_id =
     (if Task.id' t = task_id then (True, ts)
      else (case delete_loop ts 0 task_id of (r, ts') \<Rightarrow> (r, t # ts')))"
proof (cases "Task.id' t = task_id")
  case True
  then show ?thesis using delete_loop_first [of "[]" task_id t ts] by simp
next
  case False
  show ?thesis
  proof (cases "\<exists>x\<in>set ts. Task.id' x = task_id")
    case True
    then obtain pre x post where ts: "ts = pre @ x # post" and x: "Task.id' x = task_id"
      and pre: "\<forall>y\<in>set pre. Task.id' y \<noteq> task_id"
      using split_list_first_prop [of ts "\<lambda>x. Task.id' x = task_id"] by blast
    have "delete_loop ((t # pre) @ x # post) 0 task_id = (True, (t # pre) @ post)"
      by (rule delete_loop_first) (use False pre x in auto)
    moreover have "delete_loop (pre @ x # post) 0 task_id = (True, pre @ post)"
      by (rule delete_loop_first) (use pre x in auto)
    ultimately show ?thesis using False ts by simp
  next
    case no: False
    then show ?thesis using False
      by (simp add: delete_loop_absent)
  qed
qed

lemma update_loop_cases:
  "(update_loop ts 0 task_id new_task = (None, ts) \<and> (\<forall>x\<in>set ts. Task.id' x \<noteq> task_id)) \<or>
   (\<exists>pre t post. ts = pre @ t # post \<and> Task.id' t = task_id \<and>
      (\<forall>x\<in>set pre. Task.id' x \<noteq> task_id) \<and>
      update_loop ts 0 task_id new_task = (Some new_task, pre @ new_task # post))"
proof (cases "\<exists>x\<in>set ts. Task.id' x = task_id")
  case True
  then obtain pre t post where "ts = pre @ t # post" "Task.id' t = task_id"
      "\<forall>x\<in>set pre. Task.id' x \<noteq> task_id"
    using split_list_first_prop [of ts "\<lambda>x. Task.id' x = task_id"] by blast
  then show ?thesis using update_loop_first by blast
next
  case False
  then show ?thesis by (simp add: update_loop_absent)
qed

lemma delete_loop_cases:
  "(delete_loop ts 0 task_id = (False, ts) \<and> (\<forall>x\<in>set ts. Task.id' x \<noteq> task_id)) \<or>
   (\<exists>pre t post. ts = pre @ t # post \<and> Task.id' t = task_id \<and>
      (\<forall>x\<in>set pre. Task.id' x \<noteq> task_id) \<and>
      delete_loop ts 0 task_id = (True, pre @ post))"
proof (cases "\<exists>x\<in>set ts. Task.id' x = task_id")
  case True
  then obtain pre t post where "ts = pre @ t # post" "Task.id' t = task_id"
      "\<forall>x\<in>set pre. Task.id' x \<noteq> task_id"
    using split_list_first_prop [of ts "\<lambda>x. Task.id' x = task_id"] by blast
  then show ?thesis using delete_loop_first by blast
next
  case False
  then show ?thesis by (simp add: delete_loop_absent)
qed

lemma get_loop_first:
  "\<forall>x\<in>set pre. Task.id' x \<noteq> task_id \<Longrightarrow> Task.id' t = task_id \<Longrightarrow>
   get_loop (pre @ t # post) task_id = Some t"
  by (induction pre) auto

lemma get_loop_absent:
  "\<forall>x\<in>set ts. Task.id' x \<noteq> task_id \<Longrightarrow> get_loop ts task_id = None"
  by (induction ts) auto

section \<open>What each route does to the three stores\<close>

lemma create_user_eq:
  "create_user uuid4 user s =
     (Inr \<lparr>UserCreate.name = UserCreate.name user, User.id' = uuid4\<rparr>,
      s\<lparr>user_repo := (user_repo s)\<lparr>users := users (user_repo s) @
            [\<lparr>UserCreate.name = UserCreate.name user, User.id' = uuid4\<rparr>]\<rparr>\<rparr>)"
  by (simp add: create_user_def UserRepository_create_def Let_def)

lemma create_project_rejected:
  "\<not> (\<exists>u\<in>set (users (user_repo s)). User.id' u = user_id project) \<Longrightarrow>
   create_project uuid4 project s = (Inl (HTTPException 400 ''User does not exist''), s)"
  by (simp add: create_project_def list_ex_iff)

lemma create_project_accepted:
  "\<exists>u\<in>set (users (user_repo s)). User.id' u = user_id project \<Longrightarrow>
   create_project uuid4 project s =
     (Inr \<lparr>ProjectCreate.name = ProjectCreate.name project, user_id = user_id project,
           Project.id' = uuid4\<rparr>,
      s\<lparr>project_repo := (project_repo s)\<lparr>projects := projects (project_repo s) @
            [\<lparr>ProjectCreate.name = ProjectCreate.name project, user_id = user_id project,
              Project.id' = uuid4\<rparr>]\<rparr>\<rparr>)"
  by (simp add: create_project_def ProjectRepository_create_def Let_def list_ex_iff)

lemma create_task_rejected:
  "\<not> (\<exists>p\<in>set (projects (project_repo s)). Project.id' p = project_id task) \<Longrightarrow>
   create_task uuid4 task s = (Inl (HTTPException 400 ''Project does not exist''), s)"
  by (simp add: create_task_def list_ex_iff)

lemma create_task_accepted:
  "\<exists>p\<in>set (projects (project_repo s)). Project.id' p = project_id task \<Longrightarrow>
   create_task uuid4 task s =
     (Inr \<lparr>title = title task, description = description task, completed = completed task,
           project_id = project_id task, Task.id' = uuid4\<rparr>,
      s\<lparr>task_repo := (task_repo s)\<lparr>tasks := tasks (task_repo s) @
            [\<lparr>title = title task, description = description task, completed = completed task,
              project_id = project_id task, Task.id' = uuid4\<rparr>]\<rparr>\<rparr>)"
  by (simp add: create_task_def TaskRepository_create_def Let_def list_ex_iff)

lemma update_task_rejected:
  "\<not> (\<exists>p\<in>set (projects (project_repo s)). Project.id' p = project_id task) \<Longrightarrow>
   update_task task_id task s = (Inl (HTTPException 400 ''Project does not exist''), s)"
  by (simp add: update_task_def list_ex_iff)

lemma update_task_absent:
  "\<exists>p\<in>set (projects (project_repo s)). Project.id' p = project_id task \<Longrightarrow>
   \<forall>x\<in>set (tasks (task_repo s)). Task.id' x \<noteq> task_id \<Longrightarrow>
   update_task task_id task s = (Inl (HTTPException 404 ''Task not found''), s)"
  by (simp add: update_task_def TaskRepository_update_def update_loop_absent list_ex_iff)

lemma update_task_first:
  "\<exists>p\<in>set (projects (project_repo s)). Project.id' p = project_id task \<Longrightarrow>
   tasks (task_repo s) = pre @ t # post \<Longrightarrow> Task.id' t = task_id \<Longrightarrow>
   \<forall>x\<in>set pre. Task.id' x \<noteq> task_id \<Longrightarrow>
   update_task task_id task s =
     (Inr task, s\<lparr>task_repo := (task_repo s)\<lparr>tasks := pre @ task # post\<rparr>\<rparr>)"
  by (simp add: update_task_def TaskRepository_update_def update_loop_first list_ex_iff)

lemma delete_task_absent:
  "\<forall>x\<in>set (tasks (task_repo s)). Task.id' x \<noteq> task_id \<Longrightarrow>
   delete_task task_id s = (Inl (HTTPException 404 ''Task not found''), s)"
  by (simp add: delete_task_def TaskRepository_delete_def delete_loop_absent)

lemma delete_task_first:
  "tasks (task_repo s) = pre @ t # post \<Longrightarrow> Task.id' t = task_id \<Longrightarrow>
   \<forall>x\<in>set pre. Task.id' x \<noteq> task_id \<Longrightarrow>
   delete_task task_id s =
     (Inr [(''message'', ''Task deleted'')], s\<lparr>task_repo := (task_repo s)\<lparr>tasks := pre @ post\<rparr>\<rparr>)"
  by (simp add: delete_task_def TaskRepository_delete_def delete_loop_first)

text \<open>The three ways in which a request can leave the task list.\<close>

lemma handle_tasks_cases:
  "tasks (task_repo (handle r s)) = tasks (task_repo s) \<or>
   (\<exists>uuid4 task. r = POST_tasks uuid4 task \<and>
      (\<exists>p\<in>set (projects (project_repo s)). Project.id' p = project_id task) \<and>
      tasks (task_repo (handle r s)) = tasks (task_repo s) @
        [\<lparr>title = title task, description = description task, completed = completed task,
          project_id = project_id task, Task.id' = uuid4\<rparr>]) \<or>
   (\<exists>task_id task pre t post. r = PUT_task task_id task \<and>
      (\<exists>p\<in>set (projects (project_repo s)). Project.id' p = project_id task) \<and>
      tasks (task_repo s) = pre @ t # post \<and> Task.id' t = task_id \<and>
      tasks (task_repo (handle r s)) = pre @ task # post) \<or>
   (\<exists>task_id pre t post. r = DELETE_task task_id \<and>
      tasks (task_repo s) = pre @ t # post \<and> Task.id' t = task_id \<and>
      tasks (task_repo (handle r s)) = pre @ post)"
proof (cases r)
  case (POST_tasks uuid4 task)
  then show ?thesis
    by (cases "\<exists>p\<in>set (projects (project_repo s)). Project.id' p = project_id task")
       (simp_all add: create_task_accepted create_task_rejected)
next
  case (PUT_task task_id task)
  show ?thesis
  proof (cases "\<exists>p\<in>set (projects (project_repo s)). Project.id' p = project_id task")
    case False
    then show ?thesis using PUT_task by (simp add: update_task_rejected)
  next
    case True
    from update_loop_cases [of "tasks (task_repo s)" task_id task]
    show ?thesis
    proof (elim disjE exE conjE)
      assume "\<forall>x\<in>set (tasks (task_repo s)). Task.id' x \<noteq> task_id"
      then show ?thesis using PUT_task True by (simp add: update_task_absent)
    next
      fix pre t post
      assume "tasks (task_repo s) = pre @ t # post" "Task.id' t = task_id"
        "\<forall>x\<in>set pre. Task.id' x \<noteq> task_id"
      then have "tasks (task_repo s) = pre @ t # post \<and> Task.id' t = task_id \<and>
          tasks (task_repo (handle r s)) = pre @ task # post"
        using PUT_task True
        by (simp add: update_task_first [of s task pre t post task_id])
      then show ?thesis using PUT_task True by blast
    qed
  qed
next
  case (DELETE_task task_id)
  from delete_loop_cases [of "tasks (task_repo s)" task_id]
  show ?thesis
  proof (elim disjE exE conjE)
    assume "\<forall>x\<in>set (tasks (task_repo s)). Task.id' x \<noteq> task_id"
    then show ?thesis using DELETE_task by (simp add: delete_task_absent)
  next
    fix pre t post
    assume "tasks (task_repo s) = pre @ t # post" "Task.id' t = task_id"
      "\<forall>x\<in>set pre. Task.id' x \<noteq> task_id"
    then have "tasks (task_repo s) = pre @ t # post \<and> Task.id' t = task_id \<and>
        tasks (task_repo (handle r s)) = pre @ post"
      using DELETE_task
      by (simp add: delete_task_first [of s pre t post task_id])
    then show ?thesis using DELETE_task by blast
  qed
next
  case (POST_projects uuid4 project)
  then show ?thesis
    by (cases "\<exists>u\<in>set (users (user_repo s)). User.id' u = user_id project")
       (simp_all add: create_project_accepted create_project_rejected)
qed (simp_all add: create_user_eq)

lemma handle_projects_cases:
  "projects (project_repo (handle r s)) = projects (project_repo s) \<or>
   (\<exists>uuid4 project. r = POST_projects uuid4 project \<and>
      (\<exists>u\<in>set (users (user_repo s)). User.id' u = user_id project) \<and>
      projects (project_repo (handle r s)) = projects (project_repo s) @
        [\<lparr>ProjectCreate.name = ProjectCreate.name project, user_id = user_id project,
          Project.id' = uuid4\<rparr>])"
proof (cases r)
  case (POST_tasks uuid4 task)
  then show ?thesis
    by (cases "\<exists>p\<in>set (projects (project_repo s)). Project.id' p = project_id task")
       (simp_all add: create_task_accepted create_task_rejected)
next
  case (PUT_task task_id task)
  then show ?thesis
    by (simp add: update_task_def TaskRepository_update_def split: prod.splits option.splits)
next
  case (DELETE_task task_id)
  then show ?thesis
    by (simp add: delete_task_def TaskRepository_delete_def split: prod.splits bool.splits)
next
  case (POST_projects uuid4 project)
  then show ?thesis
    by (cases "\<exists>u\<in>set (users (user_repo s)). User.id' u = user_id project")
       (simp_all add: create_project_accepted create_project_rejected)
qed (simp_all add: create_user_eq)

lemma handle_users_cases:
  "users (user_repo (handle r s)) = users (user_repo s) \<or>
   (\<exists>uuid4 user. r = POST_users uuid4 user \<and>
      users (user_repo (handle r s)) = users (user_repo s) @
        [\<lparr>UserCreate.name = UserCreate.name user, User.id' = uuid4\<rparr>])"
proof (cases r)
  case (POST_tasks uuid4 task)
  then show ?thesis
    by (cases "\<exists>p\<in>set (projects (project_repo s)). Project.id' p = project_id task")
       (simp_all add: create_task_accepted create_task_rejected)
next
  case (PUT_task task_id task)
  then show ?thesis
    by (simp add: update_task_def TaskRepository_update_def split: prod.splits option.splits)
next
  case (DELETE_task task_id)
  then show ?thesis
    by (simp add: delete_task_def TaskRepository_delete_def split: prod.splits bool.splits)
next
  case (POST_projects uuid4 project)
  then show ?thesis
    by (cases "\<exists>u\<in>set (users (user_repo s)). User.id' u = user_id project")
       (simp_all add: create_project_accepted create_project_rejected)
qed (simp_all add: create_user_eq)

section \<open>Runs and reachability\<close>

lemma reachable_by_run:
  "reachable_by ok s \<Longrightarrow> all_ok ok rs s \<Longrightarrow> reachable_by ok (run rs s)"
proof (induction rs arbitrary: s)
  case Nil
  then show ?case by simp
next
  case (Cons r rs)
  from Cons.prems have "reachable_by ok (handle r s)" "all_ok ok rs (handle r s)"
    by (auto intro: reachable_by.step)
  then show ?case using Cons.IH by simp
qed

lemma reachable_by_mono:
  "reachable_by ok s \<Longrightarrow> (\<And>r s. ok r s \<Longrightarrow> ok' r s) \<Longrightarrow> reachable_by ok' s"
  by (induction rule: reachable_by.induct) (auto intro: reachable_by.intros)

lemma reachable_by_weaken:
  "reachable_by ok s \<Longrightarrow> reachable s"
  unfolding reachable_def by (erule reachable_by_mono) simp

lemma example_state_eq:
  "example_state =
     \<lparr>task_repo = \<lparr>tasks =
        [\<lparr>title = ''T'', description = None, completed = False, project_id = 2, Task.id' = 3\<rparr>,
         \<lparr>title = ''U'', description = None, completed = False, project_id = 2, Task.id' = 4\<rparr>]\<rparr>,
      project_repo = \<lparr>projects = [\<lparr>ProjectCreate.name = ''P'', user_id = 1, Project.id' = 2\<rparr>]\<rparr>,
      user_repo = \<lparr>users = [\<lparr>UserCreate.name = ''Ann'', User.id' = 1\<rparr>]\<rparr>\<rparr>"
  by (simp add: example_state_def example_requests_def init_state_def
      TaskRepository_init_def ProjectRepository_init_def UserRepository_init_def
      create_user_def create_project_def create_task_def
      TaskRepository_create_def ProjectRepository_create_def UserRepository_create_def Let_def)

lemma example_requests_ok:
  "all_ok (\<lambda>r s. uuid4_fresh r s \<and> keeps_user_ids r s \<and> keeps_project_ids r s \<and>
       keeps_task_ids r s) example_requests init_state"
  by (simp add: example_requests_def init_state_def
      TaskRepository_init_def ProjectRepository_init_def UserRepository_init_def
      create_user_def create_project_def create_task_def
      TaskRepository_create_def ProjectRepository_create_def UserRepository_create_def Let_def)

lemma example_state_reachable_by:
  "reachable_by (\<lambda>r s. uuid4_fresh r s \<and> keeps_user_ids r s \<and> keeps_project_ids r s \<and>
       keeps_task_ids r s) example_state"
  unfolding example_state_def
  by (rule reachable_by_run [OF reachable_by.init example_requests_ok])

section \<open>Referential integrity is kept by every request\<close>

lemma handle_tasks_valid:
  assumes "t \<in> set (tasks (task_repo (handle r s)))"
  shows "t \<in> set (tasks (task_repo s)) \<or>
         (\<exists>p\<in>set (projects (project_repo s)). Project.id' p = project_id t)"
  using handle_tasks_cases [of r s] assms by (elim disjE exE conjE) auto

lemma handle_projects_valid:
  assumes "p \<in> set (projects (project_repo (handle r s)))"
  shows "p \<in> set (projects (project_repo s)) \<or>
         (\<exists>u\<in>set (users (user_repo s)). User.id' u = user_id p)"
  using handle_projects_cases [of r s] assms by (elim disjE exE conjE) auto

lemma handle_projects_mono:
  "set (projects (project_repo s)) \<subseteq> set (projects (project_repo (handle r s)))"
  using handle_projects_cases [of r s] by (elim disjE exE conjE) auto

lemma handle_users_mono:
  "set (users (user_repo s)) \<subseteq> set (users (user_repo (handle r s)))"
  using handle_users_cases [of r s] by (elim disjE exE conjE) auto

lemma refs_kept_by_handle:
  assumes T: "\<forall>t\<in>set (tasks (task_repo s)).
                \<exists>p\<in>set (projects (project_repo s)). Project.id' p = project_id t"
    and P: "\<forall>p\<in>set (projects (project_repo s)).
                \<exists>u\<in>set (users (user_repo s)). User.id' u = user_id p"
  shows "(\<forall>t\<in>set (tasks (task_repo (handle r s))).
            \<exists>p\<in>set (projects (project_repo (handle r s))). Project.id' p = project_id t) \<and>
         (\<forall>p\<in>set (projects (project_repo (handle r s))).
            \<exists>u\<in>set (users (user_repo (handle r s))). User.id' u = user_id p)"
proof (intro conjI ballI)
  fix t assume "t \<in> set (tasks (task_repo (handle r s)))"
  then have "\<exists>p\<in>set (projects (project_repo s)). Project.id' p = project_id t"
    using handle_tasks_valid [of t r s] T by blast
  then show "\<exists>p\<in>set (projects (project_repo (handle r s))). Project.id' p = project_id t"
    using handle_projects_mono [of s r] by blast
next
  fix p assume "p \<in> set (projects (project_repo (handle r s)))"
  then have "\<exists>u\<in>set (users (user_repo s)). User.id' u = user_id p"
    using handle_projects_valid [of p r s] P by blast
  then show "\<exists>u\<in>set (users (user_repo (handle r s))). User.id' u = user_id p"
    using handle_users_mono [of s r] by blast
qed

lemma refs_reachable_by:
  "reachable_by ok s \<Longrightarrow>
     (\<forall>t\<in>set (tasks (task_repo s)).
        \<exists>p\<in>set (projects (project_repo s)). Project.id' p = project_id t) \<and>
     (\<forall>p\<in>set (projects (project_repo s)).
        \<exists>u\<in>set (users (user_repo s)). User.id' u = user_id p)"
proof (induction rule: reachable_by.induct)
  case init
  show ?case
    by (simp add: init_state_def TaskRepository_init_def ProjectRepository_init_def)
next
  case (step s r)
  then show ?case using refs_kept_by_handle [of s r] by blast
qed

section \<open>When identifiers stay distinct, and what a request may change\<close>

lemma create_task_other_repos:
  "user_repo (snd (create_task uuid4 task s)) = user_repo s"
  "project_repo (snd (create_task uuid4 task s)) = project_repo s"
  by (simp_all add: create_task_def TaskRepository_create_def Let_def)

lemma update_task_other_repos:
  "user_repo (snd (update_task task_id task s)) = user_repo s"
  "project_repo (snd (update_task task_id task s)) = project_repo s"
  by (simp_all add: update_task_def TaskRepository_update_def split: prod.splits option.splits)

lemma delete_task_other_repos:
  "user_repo (snd (delete_task task_id s)) = user_repo s"
  "project_repo (snd (delete_task task_id s)) = project_repo s"
  by (simp_all add: delete_task_def TaskRepository_delete_def split: prod.splits bool.splits)

lemma create_project_other_repos:
  "user_repo (snd (create_project uuid4 project s)) = user_repo s"
  "task_repo (snd (create_project uuid4 project s)) = task_repo s"
  by (simp_all add: create_project_def ProjectRepository_create_def Let_def)

lemma create_user_other_repos:
  "project_repo (snd (create_user uuid4 user s)) = project_repo s"
  "task_repo (snd (create_user uuid4 user s)) = task_repo s"
  by (simp_all add: create_user_def UserRepository_create_def Let_def)

lemmas other_repos = create_task_other_repos update_task_other_repos delete_task_other_repos
  create_project_other_repos create_user_other_repos

lemma user_ids_step:
  assumes "distinct (map User.id' (users (user_repo s)))"
  shows "distinct (map User.id' (users (user_repo (handle r s)))) \<longleftrightarrow> keeps_user_ids r s"
proof (cases r)
  case (POST_users uuid4 user)
  then show ?thesis using assms by (simp add: create_user_eq)
qed (use assms in \<open>simp_all add: other_repos\<close>)

lemma project_ids_step:
  assumes "distinct (map Project.id' (projects (project_repo s)))"
  shows "distinct (map Project.id' (projects (project_repo (handle r s))))
         \<longleftrightarrow> keeps_project_ids r s"
proof (cases r)
  case (POST_projects uuid4 project)
  show ?thesis
  proof (cases "\<exists>u\<in>set (users (user_repo s)). User.id' u = user_id project")
    case True
    then show ?thesis using assms POST_projects
      by (simp add: create_project_accepted list_ex_iff)
  next
    case False
    then show ?thesis using assms POST_projects
      by (simp add: create_project_rejected list_ex_iff)
  qed
qed (use assms in \<open>simp_all add: other_repos\<close>)

lemma task_ids_step:
  assumes T: "distinct (map Task.id' (tasks (task_repo s)))"
  shows "distinct (map Task.id' (tasks (task_repo (handle r s)))) \<longleftrightarrow> keeps_task_ids r s"
proof (cases r)
  case (POST_tasks uuid4 task)
  show ?thesis
  proof (cases "\<exists>p\<in>set (projects (project_repo s)). Project.id' p = project_id task")
    case True
    then show ?thesis using T POST_tasks
      by (simp add: create_task_accepted list_ex_iff)
  next
    case False
    then show ?thesis using T POST_tasks
      by (simp add: create_task_rejected list_ex_iff)
  qed
next
  case (PUT_task task_id task)
  show ?thesis
  proof (cases "\<exists>p\<in>set (projects (project_repo s)). Project.id' p = project_id task")
    case False
    then show ?thesis using T PUT_task
      by (simp add: update_task_rejected list_ex_iff)
  next
    case True
    from update_loop_cases [of "tasks (task_repo s)" task_id task]
    show ?thesis
    proof (elim disjE exE conjE)
      assume a: "\<forall>x\<in>set (tasks (task_repo s)). Task.id' x \<noteq> task_id"
      then have "task_id \<notin> set (map Task.id' (tasks (task_repo s)))" by auto
      then show ?thesis using T PUT_task True a
        by (simp add: update_task_absent)
    next
      fix pre t post
      assume ts: "tasks (task_repo s) = pre @ t # post" and t: "Task.id' t = task_id"
        and pre: "\<forall>x\<in>set pre. Task.id' x \<noteq> task_id"
      have eq: "update_task task_id task s =
          (Inr task, s\<lparr>task_repo := (task_repo s)\<lparr>tasks := pre @ task # post\<rparr>\<rparr>)"
        by (rule update_task_first [OF True ts t pre])
      from T ts have "Task.id' t \<notin> Task.id' ` set post" by simp
      then have post: "\<forall>x\<in>set post. Task.id' x \<noteq> task_id"
        using t by (metis imageI)
      have "distinct (map Task.id' (pre @ task # post)) \<longleftrightarrow>
            Task.id' task \<notin> Task.id' ` set pre \<and> Task.id' task \<notin> Task.id' ` set post"
        using T ts by auto
      also have "\<dots> \<longleftrightarrow> Task.id' task = task_id \<or>
            Task.id' task \<notin> set (map Task.id' (tasks (task_repo s)))"
        using pre post t by (auto simp: ts)
      finally show ?thesis using PUT_task True ts t
        by (simp add: eq list_ex_iff)
    qed
  qed
next
  case (DELETE_task task_id)
  from delete_loop_cases [of "tasks (task_repo s)" task_id]
  show ?thesis
  proof (elim disjE exE conjE)
    assume "\<forall>x\<in>set (tasks (task_repo s)). Task.id' x \<noteq> task_id"
    then show ?thesis using T DELETE_task by (simp add: delete_task_absent)
  next
    fix pre t post
    assume ts: "tasks (task_repo s) = pre @ t # post" and t: "Task.id' t = task_id"
      and pre: "\<forall>x\<in>set pre. Task.id' x \<noteq> task_id"
    then show ?thesis using T DELETE_task
      by (simp add: delete_task_first [OF ts t pre])
  qed
qed (use T in \<open>simp_all add: other_repos\<close>)

lemma user_ids_reachable_by:
  "reachable_by keeps_user_ids s \<Longrightarrow> distinct (map User.id' (users (user_repo s)))"
proof (induction rule: reachable_by.induct)
  case init
  show ?case by (simp add: init_state_def UserRepository_init_def)
next
  case (step s r)
  then show ?case using user_ids_step [of s r] by blast
qed

lemma project_ids_reachable_by:
  "reachable_by keeps_project_ids s \<Longrightarrow>
   distinct (map Project.id' (projects (project_repo s)))"
proof (induction rule: reachable_by.induct)
  case init
  show ?case by (simp add: init_state_def ProjectRepository_init_def)
next
  case (step s r)
  then show ?case using project_ids_step [of s r] by blast
qed

lemma task_ids_reachable_by:
  "reachable_by keeps_task_ids s \<Longrightarrow> distinct (map Task.id' (tasks (task_repo s)))"
proof (induction rule: reachable_by.induct)
  case init
  show ?case by (simp add: init_state_def TaskRepository_init_def)
next
  case (step s r)
  then show ?case using task_ids_step [of s r] by blast
qed

lemma tasks_kept_by_handle:
  "tasks (task_repo (handle r s)) = tasks (task_repo s) \<or>
   (\<exists>t. tasks (task_repo (handle r s)) = tasks (task_repo s) @ [t]) \<or>
   (\<exists>pre t post. tasks (task_repo s) = pre @ t # post \<and>
      tasks (task_repo (handle r s)) = pre @ post) \<or>
   (\<exists>task_id task pre t post. r = PUT_task task_id task \<and>
      tasks (task_repo s) = pre @ t # post \<and> Task.id' t = task_id \<and>
      tasks (task_repo (handle r s)) = pre @ task # post)"
  using handle_tasks_cases [of r s] by (elim disjE exE conjE) blast+

lemma projects_prefix_handle:
  "prefix (projects (project_repo s)) (projects (project_repo (handle r s)))"
  using handle_projects_cases [of r s] by (elim disjE exE conjE) auto

lemma users_prefix_handle:
  "prefix (users (user_repo s)) (users (user_repo (handle r s)))"
  using handle_users_cases [of r s] by (elim disjE exE conjE) auto

lemma get_loop_id: "get_loop ts task_id = Some x \<Longrightarrow> Task.id' x = task_id"
  by (induction ts) (auto split: if_splits)

lemma get_task_id: "get_task task_id s = Inr x \<Longrightarrow> Task.id' x = task_id"
  by (auto simp: get_task_def TaskRepository_get_def split: option.splits dest: get_loop_id)

lemma get_after_update_task:
  assumes "fst (update_task task_id task s) = Inr task'"
  shows "task' = task \<and>
         (get_task task_id (snd (update_task task_id task s)) = Inr task
            \<longleftrightarrow> Task.id' task = task_id)"
proof (cases "\<exists>p\<in>set (projects (project_repo s)). Project.id' p = project_id task")
  case False
  then show ?thesis using assms by (simp add: update_task_rejected)
next
  case True
  from update_loop_cases [of "tasks (task_repo s)" task_id task]
  show ?thesis
  proof (elim disjE exE conjE)
    assume "\<forall>x\<in>set (tasks (task_repo s)). Task.id' x \<noteq> task_id"
    then show ?thesis using assms True by (simp add: update_task_absent)
  next
    fix pre t post
    assume "tasks (task_repo s) = pre @ t # post" "Task.id' t = task_id"
      "\<forall>x\<in>set pre. Task.id' x \<noteq> task_id"
    with True have eq: "update_task task_id task s =
        (Inr task, s\<lparr>task_repo := (task_repo s)\<lparr>tasks := pre @ task # post\<rparr>\<rparr>)"
      and pre: "\<forall>x\<in>set pre. Task.id' x \<noteq> task_id"
      by (simp_all add: update_task_first [of s task pre t post task_id])
    from assms have "task' = task" by (simp add: eq)
    moreover have "get_task task_id (snd (update_task task_id task s)) = Inr task"
      if "Task.id' task = task_id"
      using pre that
      by (simp add: eq get_task_def TaskRepository_get_def get_loop_first)
    moreover have "Task.id' task = task_id"
      if "get_task task_id (snd (update_task task_id task s)) = Inr task"
      using that by (rule get_task_id)
    ultimately show ?thesis by blast
  qed
qed

section \<open>The scenario, evaluated\<close>

lemma update_task_example:
  "update_task 3 example_payload example_state =
     (Inr example_payload,
      example_state\<lparr>task_repo := \<lparr>tasks =
        [example_payload,
         \<lparr>title = ''U'', description = None, completed = False, project_id = 2,
          Task.id' = 4\<rparr>]\<rparr>\<rparr>)"
  by (simp add: example_state_eq example_payload_def update_task_def TaskRepository_update_def
      update_loop_Cons)

lemma example_state_ids_ok:
  "reachable_by keeps_user_ids example_state"
  "reachable_by keeps_project_ids example_state"
  "reachable_by keeps_task_ids example_state"
  "reachable_by uuid4_fresh example_state"
  by (rule reachable_by_mono [OF example_state_reachable_by], simp)+

section \<open>The claims\<close>

text \<open>
  C1. In every state reachable from the empty stores by the routes, whatever the
  values drawn by \<^verbatim>\<open>uuid4()\<close>, every stored Task names the \<^verbatim>\<open>id\<close> of a stored
  Project and every stored Project names the \<^verbatim>\<open>id\<close> of a stored User.
\<close>

theorem referential_integrity:
  "reachable s \<Longrightarrow>
     (\<forall>t\<in>set (tasks (task_repo s)).
        \<exists>p\<in>set (projects (project_repo s)). Project.id' p = project_id t) \<and>
     (\<forall>p\<in>set (projects (project_repo s)).
        \<exists>u\<in>set (users (user_repo s)). User.id' u = user_id p)"
  unfolding reachable_def by (rule refs_reachable_by)

theorem referential_integrity_witness:
  "reachable example_state \<and>
   list_all (\<lambda>t. list_ex (\<lambda>p. Project.id' p = project_id t)
                    (projects (project_repo example_state)))
     (tasks (task_repo example_state)) \<and>
   list_all (\<lambda>p. list_ex (\<lambda>u. User.id' u = user_id p) (users (user_repo example_state)))
     (projects (project_repo example_state))"
proof -
  have r: "reachable example_state"
    by (rule reachable_by_weaken [OF example_state_reachable_by])
  show ?thesis using r referential_integrity [OF r] by (simp add: list_all_iff list_ex_iff)
qed

text \<open>
  C2, as stated, fails in two ways. In the scenario every value of \<^verbatim>\<open>uuid4()\<close>
  was new, and \<^verbatim>\<open>PUT /tasks/3\<close> with a body whose \<^verbatim>\<open>id\<close> is 4 succeeds:
  afterwards two stored Tasks have the \<^verbatim>\<open>id\<close> 4, and \<^verbatim>\<open>GET /tasks/3\<close> finds
  nothing. And the \<^verbatim>\<open>POST\<close> routes store the value of \<^verbatim>\<open>uuid4()\<close> unchecked:
  when it is 1 again, two stored Users have the \<^verbatim>\<open>id\<close> 1; when it is 2 again,
  two stored Projects have the \<^verbatim>\<open>id\<close> 2.
\<close>

theorem identifiers_unique_immutable_counterexample:
  "reachable_by uuid4_fresh (handle (PUT_task 3 example_payload) example_state) \<and>
   reachable (handle (PUT_task 3 example_payload) example_state) \<and>
   map Task.id' (tasks (task_repo example_state)) = [3, 4] \<and>
   fst (update_task 3 example_payload example_state) = Inr example_payload \<and>
   map Task.id' (tasks (task_repo (handle (PUT_task 3 example_payload) example_state))) = [4, 4] \<and>
   \<not> distinct (map Task.id'
        (tasks (task_repo (handle (PUT_task 3 example_payload) example_state)))) \<and>
   get_task 3 (snd (update_task 3 example_payload example_state))
     = Inl (HTTPException 404 ''Task not found'') \<and>
   reachable (handle (POST_users 1 \<lparr>UserCreate.name = ''Eve''\<rparr>) example_state) \<and>
   map User.id' (users (user_repo
       (handle (POST_users 1 \<lparr>UserCreate.name = ''Eve''\<rparr>) example_state))) = [1, 1] \<and>
   \<not> distinct (map User.id' (users (user_repo
       (handle (POST_users 1 \<lparr>UserCreate.name = ''Eve''\<rparr>) example_state)))) \<and>
   map Project.id' (projects (project_repo
       (handle (POST_projects 2 \<lparr>ProjectCreate.name = ''Q'', user_id = 1\<rparr>) example_state)))
     = [2, 2]"
proof -
  have e: "reachable_by uuid4_fresh example_state"
    by (rule example_state_ids_ok)
  have f: "reachable_by uuid4_fresh (handle (PUT_task 3 example_payload) example_state)"
    by (rule reachable_by.step [OF e]) simp
  have ids: "map Task.id' (tasks (task_repo (handle (PUT_task 3 example_payload) example_state)))
      = [4, 4]"
    by (simp add: update_task_example, simp add: example_payload_def)
  have g: "get_task 3 (snd (update_task 3 example_payload example_state))
     = Inl (HTTPException 404 ''Task not found'')"
    by (simp add: update_task_example get_task_def TaskRepository_get_def,
        simp add: example_payload_def)
  have a: "map Task.id' (tasks (task_repo example_state)) = [3, 4]"
    by (simp add: example_state_eq)
  have b: "fst (update_task 3 example_payload example_state) = Inr example_payload"
    by (simp add: update_task_example)
  have c: "\<not> distinct (map Task.id'
        (tasks (task_repo (handle (PUT_task 3 example_payload) example_state))))"
    unfolding ids by simp
  have r: "reachable example_state"
    by (rule reachable_by_weaken [OF e])
  have h: "reachable (handle (POST_users 1 \<lparr>UserCreate.name = ''Eve''\<rparr>) example_state)"
    using r unfolding reachable_def by (rule reachable_by.step) simp
  have u: "map User.id' (users (user_repo
       (handle (POST_users 1 \<lparr>UserCreate.name = ''Eve''\<rparr>) example_state))) = [1, 1]"
    by (simp add: create_user_eq, simp add: example_state_eq)
  have d: "\<not> distinct (map User.id' (users (user_repo
       (handle (POST_users 1 \<lparr>UserCreate.name = ''Eve''\<rparr>) example_state))))"
    unfolding u by simp
  have q: "map Project.id' (projects (project_repo
       (handle (POST_projects 2 \<lparr>ProjectCreate.name = ''Q'', user_id = 1\<rparr>) example_state)))
     = [2, 2]"
    by (simp add: example_state_eq create_project_def ProjectRepository_create_def Let_def)
  from f reachable_by_weaken [OF f] a b ids c g h u d q show ?thesis
    by (intro conjI)
qed

text \<open>
  C2, amended. From a state in which the identifiers of a collection are
  pairwise distinct, a request leaves them distinct exactly when: for Users, it
  is no \<^verbatim>\<open>POST /users\<close> whose \<^verbatim>\<open>uuid4()\<close> value is the \<^verbatim>\<open>id\<close> of a stored User;
  for Projects, it is no accepted \<^verbatim>\<open>POST /projects\<close> whose value is the \<^verbatim>\<open>id\<close>
  of a stored Project; for Tasks, it is no accepted \<^verbatim>\<open>POST /tasks\<close> whose value
  is the \<^verbatim>\<open>id\<close> of a stored Task and no successful \<^verbatim>\<open>PUT /tasks/{task_id}\<close> whose
  body carries an \<^verbatim>\<open>id\<close> other than \<open>task_id\<close> that a stored Task has. So the
  identifiers of a collection are pairwise distinct in every state reached by
  requests that meet the condition of that collection. No request changes or
  removes a stored User or Project. A request leaves the Tasks as they are, or
  appends one, or removes one, or (a successful \<^verbatim>\<open>PUT\<close>) puts its body in the
  place of a Task with the \<^verbatim>\<open>id\<close> \<open>task_id\<close>; after a successful \<^verbatim>\<open>PUT\<close>,
  \<^verbatim>\<open>GET /tasks/{task_id}\<close> answers the body exactly when the body's \<^verbatim>\<open>id\<close> is
  \<open>task_id\<close>.
\<close>

theorem identifiers_distinct_and_kept:
  "(distinct (map User.id' (users (user_repo s))) \<longrightarrow>
      (distinct (map User.id' (users (user_repo (handle r s)))) \<longleftrightarrow> keeps_user_ids r s)) \<and>
   (distinct (map Project.id' (projects (project_repo s))) \<longrightarrow>
      (distinct (map Project.id' (projects (project_repo (handle r s))))
         \<longleftrightarrow> keeps_project_ids r s)) \<and>
   (distinct (map Task.id' (tasks (task_repo s))) \<longrightarrow>
      (distinct (map Task.id' (tasks (task_repo (handle r s)))) \<longleftrightarrow> keeps_task_ids r s)) \<and>
   (reachable_by keeps_user_ids s \<longrightarrow> distinct (map User.id' (users (user_repo s)))) \<and>
   (reachable_by keeps_project_ids s \<longrightarrow>
      distinct (map Project.id' (projects (project_repo s)))) \<and>
   (reachable_by keeps_task_ids s \<longrightarrow> distinct (map Task.id' (tasks (task_repo s)))) \<and>
   prefix (users (user_repo s)) (users (user_repo (handle r s))) \<and>
   prefix (projects (project_repo s)) (projects (project_repo (handle r s))) \<and>
   (tasks (task_repo (handle r s)) = tasks (task_repo s) \<or>
    (\<exists>t. tasks (task_repo (handle r s)) = tasks (task_repo s) @ [t]) \<or>
    (\<exists>pre t post. tasks (task_repo s) = pre @ t # post \<and>
       tasks (task_repo (handle r s)) = pre @ post) \<or>
    (\<exists>task_id task pre t post. r = PUT_task task_id task \<and>
       tasks (task_repo s) = pre @ t # post \<and> Task.id' t = task_id \<and>
       tasks (task_repo (handle r s)) = pre @ task # post)) \<and>
   (fst (update_task task_id task s) = Inr task' \<longrightarrow>
      task' = task \<and>
      (get_task task_id (snd (update_task task_id task s)) = Inr task
         \<longleftrightarrow> Task.id' task = task_id))"
proof (intro conjI impI)
  assume "distinct (map User.id' (users (user_repo s)))"
  then show "distinct (map User.id' (users (user_repo (handle r s)))) \<longleftrightarrow> keeps_user_ids r s"
    by (rule user_ids_step)
next
  assume "distinct (map Project.id' (projects (project_repo s)))"
  then show "distinct (map Project.id' (projects (project_repo (handle r s))))
         \<longleftrightarrow> keeps_project_ids r s"
    by (rule project_ids_step)
next
  assume "distinct (map Task.id' (tasks (task_repo s)))"
  then show "distinct (map Task.id' (tasks (task_repo (handle r s)))) \<longleftrightarrow> keeps_task_ids r s"
    by (rule task_ids_step)
next
  assume "reachable_by keeps_user_ids s"
  then show "distinct (map User.id' (users (user_repo s)))"
    by (rule user_ids_reachable_by)
next
  assume "reachable_by keeps_project_ids s"
  then show "distinct (map Project.id' (projects (project_repo s)))"
    by (rule project_ids_reachable_by)
next
  assume "reachable_by keeps_task_ids s"
  then show "distinct (map Task.id' (tasks (task_repo s)))"
    by (rule task_ids_reachable_by)
next
  show "prefix (users (user_repo s)) (users (user_repo (handle r s)))"
    by (rule users_prefix_handle)
  show "prefix (projects (project_repo s)) (projects (project_repo (handle r s)))"
    by (rule projects_prefix_handle)
  show "tasks (task_repo (handle r s)) = tasks (task_repo s) \<or>
    (\<exists>t. tasks (task_repo (handle r s)) = tasks (task_repo s) @ [t]) \<or>
    (\<exists>pre t post. tasks (task_repo s) = pre @ t # post \<and>
       tasks (task_repo (handle r s)) = pre @ post) \<or>
    (\<exists>task_id task pre t post. r = PUT_task task_id task \<and>
       tasks (task_repo s) = pre @ t # post \<and> Task.id' t = task_id \<and>
       tasks (task_repo (handle r s)) = pre @ task # post)"
    by (rule tasks_kept_by_handle)
next
  assume h: "fst (update_task task_id task s) = Inr task'"
  from get_after_update_task [OF h] show "task' = task" by blast
  from get_after_update_task [OF h]
  show "get_task task_id (snd (update_task task_id task s)) = Inr task
         \<longleftrightarrow> Task.id' task = task_id"
    by blast
qed

text \<open>
  In the scenario: the identifiers are distinct; \<^verbatim>\<open>PUT /tasks/3\<close> with a body
  whose \<^verbatim>\<open>id\<close> is 8, which no stored Task has, meets the condition and leaves
  the identifiers 8 and 4; with the body whose \<^verbatim>\<open>id\<close> is 4 it does not.
\<close>

theorem identifiers_distinct_and_kept_witness:
  "reachable_by keeps_user_ids example_state \<and>
   reachable_by keeps_project_ids example_state \<and>
   reachable_by keeps_task_ids example_state \<and>
   distinct (map User.id' (users (user_repo example_state))) \<and>
   distinct (map Project.id' (projects (project_repo example_state))) \<and>
   distinct (map Task.id' (tasks (task_repo example_state))) \<and>
   keeps_task_ids (PUT_task 3 (example_payload\<lparr>Task.id' := 8\<rparr>)) example_state \<and>
   fst (update_task 3 (example_payload\<lparr>Task.id' := 8\<rparr>) example_state)
     = Inr (example_payload\<lparr>Task.id' := 8\<rparr>) \<and>
   distinct (map Task.id' (tasks (task_repo
       (handle (PUT_task 3 (example_payload\<lparr>Task.id' := 8\<rparr>)) example_state)))) \<and>
   get_task 3 (snd (update_task 3 (example_payload\<lparr>Task.id' := 8\<rparr>) example_state))
     \<noteq> Inr (example_payload\<lparr>Task.id' := 8\<rparr>) \<and>
   \<not> keeps_task_ids (PUT_task 3 example_payload) example_state \<and>
   \<not> distinct (map Task.id' (tasks (task_repo
       (handle (PUT_task 3 example_payload) example_state))))"
proof -
  note t8 = identifiers_distinct_and_kept
    [of example_state "PUT_task 3 (example_payload\<lparr>Task.id' := 8\<rparr>)" 3
        "example_payload\<lparr>Task.id' := 8\<rparr>" "example_payload\<lparr>Task.id' := 8\<rparr>"]
  note t4 = identifiers_distinct_and_kept
    [of example_state "PUT_task 3 example_payload" 3 example_payload example_payload]
  have U: "distinct (map User.id' (users (user_repo example_state)))"
    and P: "distinct (map Project.id' (projects (project_repo example_state)))"
    and T: "distinct (map Task.id' (tasks (task_repo example_state)))"
    using t8 example_state_ids_ok by blast+
  have k8: "keeps_task_ids (PUT_task 3 (example_payload\<lparr>Task.id' := 8\<rparr>)) example_state"
    by (simp add: example_state_eq example_payload_def)
  have k4: "\<not> keeps_task_ids (PUT_task 3 example_payload) example_state"
    by (simp add: example_state_eq example_payload_def)
  have d8: "distinct (map Task.id' (tasks (task_repo
       (handle (PUT_task 3 (example_payload\<lparr>Task.id' := 8\<rparr>)) example_state))))"
    using t8 T k8 by blast
  have d4: "\<not> distinct (map Task.id' (tasks (task_repo
       (handle (PUT_task 3 example_payload) example_state))))"
    using t4 T k4 by blast
  have f8: "fst (update_task 3 (example_payload\<lparr>Task.id' := 8\<rparr>) example_state)
     = Inr (example_payload\<lparr>Task.id' := 8\<rparr>)"
    by (simp add: example_state_eq example_payload_def update_task_def
        TaskRepository_update_def update_loop_Cons)
  have i8: "Task.id' (example_payload\<lparr>Task.id' := 8\<rparr>) \<noteq> 3" by simp
  have g8: "get_task 3 (snd (update_task 3 (example_payload\<lparr>Task.id' := 8\<rparr>) example_state))
     \<noteq> Inr (example_payload\<lparr>Task.id' := 8\<rparr>)"
    using t8 f8 i8 by blast
  from example_state_ids_ok(1-3) U P T k8 f8 d8 g8 k4 d4 show ?thesis
    by (intro conjI)
qed

text \<open>
  C3. When the project named by the payload exists and some stored Task has the
  \<^verbatim>\<open>id\<close> \<open>task_id\<close>, \<^verbatim>\<open>update\<close> writes the payload, as it is, into the first slot
  \<open>k\<close> whose Task has that \<^verbatim>\<open>id\<close>, and returns it; the \<^verbatim>\<open>id\<close> stored in the slot
  is the payload's, whether or not it is \<open>task_id\<close>. When no stored Task has the
  \<^verbatim>\<open>id\<close> \<open>task_id\<close>, \<^verbatim>\<open>update\<close> returns \<^verbatim>\<open>None\<close> and the repository is as before.
\<close>

theorem update_stores_payload_as_given:
  "((\<exists>t\<in>set (tasks (task_repo s)). Task.id' t = task_id) \<and>
    (\<exists>p\<in>set (projects (project_repo s)). Project.id' p = project_id payload) \<longrightarrow>
      (\<exists>k<length (tasks (task_repo s)).
         Task.id' (tasks (task_repo s) ! k) = task_id \<and>
         (\<forall>j<k. Task.id' (tasks (task_repo s) ! j) \<noteq> task_id) \<and>
         TaskRepository_update (task_repo s) task_id payload =
           (Some payload, (task_repo s)\<lparr>tasks := (tasks (task_repo s))[k := payload]\<rparr>) \<and>
         update_task task_id payload s =
           (Inr payload,
            s\<lparr>task_repo := (task_repo s)\<lparr>tasks := (tasks (task_repo s))[k := payload]\<rparr>\<rparr>) \<and>
         tasks (task_repo (snd (update_task task_id payload s))) ! k = payload \<and>
         Task.id' (tasks (task_repo (snd (update_task task_id payload s))) ! k)
           = Task.id' payload)) \<and>
   ((\<forall>t\<in>set (tasks (task_repo s)). Task.id' t \<noteq> task_id) \<longrightarrow>
      TaskRepository_update (task_repo s) task_id payload = (None, task_repo s))"
proof (intro conjI impI)
  assume h: "(\<exists>t\<in>set (tasks (task_repo s)). Task.id' t = task_id) \<and>
    (\<exists>p\<in>set (projects (project_repo s)). Project.id' p = project_id payload)"
  then obtain pre t post where ts: "tasks (task_repo s) = pre @ t # post"
    and t: "Task.id' t = task_id" and pre: "\<forall>x\<in>set pre. Task.id' x \<noteq> task_id"
    using split_list_first_prop [of "tasks (task_repo s)" "\<lambda>x. Task.id' x = task_id"] by blast
  let ?k = "length pre"
  have upd: "(tasks (task_repo s))[?k := payload] = pre @ payload # post"
    by (simp add: ts)
  have 1: "?k < length (tasks (task_repo s))" by (simp add: ts)
  have 2: "Task.id' (tasks (task_repo s) ! ?k) = task_id" by (simp add: ts t)
  have 3: "\<forall>j<?k. Task.id' (tasks (task_repo s) ! j) \<noteq> task_id"
    using pre by (simp add: ts nth_append)
  have 4: "TaskRepository_update (task_repo s) task_id payload =
           (Some payload, (task_repo s)\<lparr>tasks := (tasks (task_repo s))[?k := payload]\<rparr>)"
    unfolding upd using pre t by (simp add: TaskRepository_update_def ts update_loop_first)
  have 5: "update_task task_id payload s =
           (Inr payload,
            s\<lparr>task_repo := (task_repo s)\<lparr>tasks := (tasks (task_repo s))[?k := payload]\<rparr>\<rparr>)"
    unfolding upd using h ts t pre by (simp add: update_task_first)
  have 6: "tasks (task_repo (snd (update_task task_id payload s))) ! ?k = payload"
    by (simp add: 5 ts)
  from 1 2 3 4 5 6
  show "\<exists>k<length (tasks (task_repo s)).
         Task.id' (tasks (task_repo s) ! k) = task_id \<and>
         (\<forall>j<k. Task.id' (tasks (task_repo s) ! j) \<noteq> task_id) \<and>
         TaskRepository_update (task_repo s) task_id payload =
           (Some payload, (task_repo s)\<lparr>tasks := (tasks (task_repo s))[k := payload]\<rparr>) \<and>
         update_task task_id payload s =
           (Inr payload,
            s\<lparr>task_repo := (task_repo s)\<lparr>tasks := (tasks (task_repo s))[k := payload]\<rparr>\<rparr>) \<and>
         tasks (task_repo (snd (update_task task_id payload s))) ! k = payload \<and>
         Task.id' (tasks (task_repo (snd (update_task task_id payload s))) ! k)
           = Task.id' payload"
    by (intro exI [of _ ?k]) simp
next
  assume "\<forall>t\<in>set (tasks (task_repo s)). Task.id' t \<noteq> task_id"
  then show "TaskRepository_update (task_repo s) task_id payload = (None, task_repo s)"
    by (simp add: TaskRepository_update_def update_loop_absent)
qed

text \<open>
  In the scenario, \<^verbatim>\<open>PUT /tasks/3\<close> with a body whose \<^verbatim>\<open>id\<close> is 4 is answered with
  the body, and the first slot then holds a Task whose \<^verbatim>\<open>id\<close> is 4.
\<close>

theorem update_stores_payload_as_given_witness:
  "(\<exists>t\<in>set (tasks (task_repo example_state)). Task.id' t = 3) \<and>
   (\<exists>p\<in>set (projects (project_repo example_state)). Project.id' p = project_id example_payload) \<and>
   fst (update_task 3 example_payload example_state) = Inr example_payload \<and>
   tasks (task_repo (snd (update_task 3 example_payload example_state))) ! 0 = example_payload \<and>
   Task.id' (tasks (task_repo (snd (update_task 3 example_payload example_state))) ! 0) = 4 \<and>
   TaskRepository_update (task_repo example_state) 9 example_payload
     = (None, task_repo example_state)"
proof -
  have a: "\<exists>t\<in>set (tasks (task_repo example_state)). Task.id' t = 3"
    by (simp add: example_state_eq)
  have b: "\<exists>p\<in>set (projects (project_repo example_state)).
             Project.id' p = project_id example_payload"
    by (simp add: example_state_eq example_payload_def)
  have c: "\<forall>t\<in>set (tasks (task_repo example_state)). Task.id' t \<noteq> 9"
    by (simp add: example_state_eq)
  have k: "\<And>k. k < length (tasks (task_repo example_state)) \<Longrightarrow>
             Task.id' (tasks (task_repo example_state) ! k) = 3 \<Longrightarrow> k = 0"
    by (auto simp: example_state_eq less_Suc_eq)
  from update_stores_payload_as_given [of example_state 3 example_payload] a b
  obtain k where "k < length (tasks (task_repo example_state))"
    "Task.id' (tasks (task_repo example_state) ! k) = 3"
    "update_task 3 example_payload example_state =
           (Inr example_payload,
            example_state\<lparr>task_repo := (task_repo example_state)
               \<lparr>tasks := (tasks (task_repo example_state))[k := example_payload]\<rparr>\<rparr>)"
    "tasks (task_repo (snd (update_task 3 example_payload example_state))) ! k = example_payload"
    by blast
  moreover from this k have "k = 0" by blast
  moreover have "Task.id' example_payload = 4" by (simp add: example_payload_def)
  moreover have "TaskRepository_update (task_repo example_state) 9 example_payload
     = (None, task_repo example_state)"
    using update_stores_payload_as_given [of example_state 9 example_payload] c by blast
  ultimately show ?thesis using a b by simp
qed

text \<open>
  C4, as stated, fails in its first half. \<^verbatim>\<open>update_task\<close> checks the project
  before it looks for the Task: on the empty stores, where no Task has the \<^verbatim>\<open>id\<close>
  3, \<^verbatim>\<open>PUT /tasks/3\<close> is answered with 400, not 404.
\<close>

theorem put_absent_task_counterexample:
  "TaskRepository_get (task_repo init_state) 3 = None \<and>
   update_task 3 example_payload init_state
     = (Inl (HTTPException 400 ''Project does not exist''), init_state) \<and>
   response_status (fst (update_task 3 example_payload init_state)) = 400 \<and>
   response_status (fst (update_task 3 example_payload init_state)) \<noteq> 404"
  by (simp add: init_state_def TaskRepository_init_def ProjectRepository_init_def
      TaskRepository_get_def update_task_def response_status_def)

text \<open>
  C4, amended. \<^verbatim>\<open>PUT /tasks/{task_id}\<close> with a payload whose \<^verbatim>\<open>project_id\<close>
  names no stored Project is answered with 400, whether or not a Task has the
  \<^verbatim>\<open>id\<close> \<open>task_id\<close>, and the whole state is as before. With a payload whose
  \<^verbatim>\<open>project_id\<close> names a stored Project and a \<open>task_id\<close> that no stored Task has,
  it is answered with 404, and the whole state is as before.
\<close>

theorem put_errors_leave_state:
  "(\<not> (\<exists>p\<in>set (projects (project_repo s)). Project.id' p = project_id task) \<longrightarrow>
      update_task task_id task s = (Inl (HTTPException 400 ''Project does not exist''), s) \<and>
      response_status (fst (update_task task_id task s)) = 400) \<and>
   ((\<exists>p\<in>set (projects (project_repo s)). Project.id' p = project_id task) \<and>
    (\<forall>t\<in>set (tasks (task_repo s)). Task.id' t \<noteq> task_id) \<longrightarrow>
      update_task task_id task s = (Inl (HTTPException 404 ''Task not found''), s) \<and>
      response_status (fst (update_task task_id task s)) = 404)"
  by (simp add: update_task_rejected update_task_absent response_status_def)

text \<open>
  In the scenario: a body naming the unknown project 9 sent to the stored Task 3,
  and a body naming the stored project 2 sent to the unknown Task 9.
\<close>

theorem put_errors_leave_state_witness:
  "get_task 3 example_state
     = Inr \<lparr>title = ''T'', description = None, completed = False, project_id = 2,
            Task.id' = 3\<rparr> \<and>
   update_task 3 (example_payload\<lparr>project_id := 9\<rparr>) example_state
     = (Inl (HTTPException 400 ''Project does not exist''), example_state) \<and>
   response_status (fst (update_task 3 (example_payload\<lparr>project_id := 9\<rparr>) example_state))
     = 400 \<and>
   get_task 9 example_state = Inl (HTTPException 404 ''Task not found'') \<and>
   update_task 9 example_payload example_state
     = (Inl (HTTPException 404 ''Task not found''), example_state) \<and>
   response_status (fst (update_task 9 example_payload example_state)) = 404"
proof -
  have a: "\<not> (\<exists>p\<in>set (projects (project_repo example_state)).
              Project.id' p = project_id (example_payload\<lparr>project_id := 9\<rparr>))"
    by (simp add: example_state_eq)
  have b: "\<exists>p\<in>set (projects (project_repo example_state)).
              Project.id' p = project_id example_payload"
    by (simp add: example_state_eq example_payload_def)
  have c: "\<forall>t\<in>set (tasks (task_repo example_state)). Task.id' t \<noteq> 9"
    by (simp add: example_state_eq)
  have g: "get_task 3 example_state
     = Inr \<lparr>title = ''T'', description = None, completed = False, project_id = 2,
            Task.id' = 3\<rparr>"
    "get_task 9 example_state = Inl (HTTPException 404 ''Task not found'')"
    by (simp_all add: example_state_eq get_task_def TaskRepository_get_def)
  from put_errors_leave_state [of example_state "example_payload\<lparr>project_id := 9\<rparr>" 3] a
    put_errors_leave_state [of example_state example_payload 9] b c g
  show ?thesis by blast
qed




text \<open>
  C6. When no stored User has the \<^verbatim>\<open>id\<close> that the payload names as \<^verbatim>\<open>user_id\<close>,
  \<^verbatim>\<open>POST /projects\<close> raises \<^verbatim>\<open>HTTPException(400, "User does not exist")\<close> and the
  state is as before, so every listing \<^verbatim>\<open>GET /projects\<close>, with or without the
  query \<^verbatim>\<open>user_id\<close>, is what it was; in a reachable state no listing holds a
  Project with the rejected \<^verbatim>\<open>user_id\<close>.
\<close>

theorem create_project_unknown_user_rejected:
  "\<not> (\<exists>u\<in>set (users (user_repo s)). User.id' u = user_id project) \<longrightarrow>
     create_project uuid4 project s = (Inl (HTTPException 400 ''User does not exist''), s) \<and>
     response_status (fst (create_project uuid4 project s)) = 400 \<and>
     projects (project_repo (snd (create_project uuid4 project s))) = projects (project_repo s) \<and>
     get_projects q (snd (create_project uuid4 project s)) = get_projects q s \<and>
     (reachable s \<longrightarrow>
        \<not> (\<exists>p\<in>set (get_projects q (snd (create_project uuid4 project s))).
              user_id p = user_id project))"
proof (intro impI conjI)
  assume n: "\<not> (\<exists>u\<in>set (users (user_repo s)). User.id' u = user_id project)"
  then show eq: "create_project uuid4 project s
      = (Inl (HTTPException 400 ''User does not exist''), s)"
    by (rule create_project_rejected)
  then show "response_status (fst (create_project uuid4 project s)) = 400"
    by (simp add: response_status_def)
  from eq show "projects (project_repo (snd (create_project uuid4 project s)))
      = projects (project_repo s)"
    by simp
  from eq show "get_projects q (snd (create_project uuid4 project s)) = get_projects q s"
    by simp
  assume "reachable s"
  then have P: "\<forall>p\<in>set (projects (project_repo s)).
                  \<exists>u\<in>set (users (user_repo s)). User.id' u = user_id p"
    unfolding reachable_def using refs_reachable_by by blast
  have "set (get_projects q s) \<subseteq> set (projects (project_repo s))"
    by (cases q) (auto simp: get_projects_def ProjectRepository_list_def)
  with P n have "\<not> (\<exists>p\<in>set (get_projects q s). user_id p = user_id project)"
    by (metis subsetD)
  then show "\<not> (\<exists>p\<in>set (get_projects q (snd (create_project uuid4 project s))).
              user_id p = user_id project)"
    by (simp add: eq)
qed

text \<open>In the scenario, a project for the unknown user 9.\<close>

theorem create_project_unknown_user_rejected_witness:
  "\<not> list_ex (\<lambda>u. User.id' u = 9) (users (user_repo example_state)) \<and>
   reachable example_state \<and>
   create_project 7 \<lparr>ProjectCreate.name = ''Q'', user_id = 9\<rparr> example_state
     = (Inl (HTTPException 400 ''User does not exist''), example_state) \<and>
   response_status
     (fst (create_project 7 \<lparr>ProjectCreate.name = ''Q'', user_id = 9\<rparr> example_state)) = 400 \<and>
   get_projects None
     (snd (create_project 7 \<lparr>ProjectCreate.name = ''Q'', user_id = 9\<rparr> example_state))
     = [\<lparr>ProjectCreate.name = ''P'', user_id = 1, Project.id' = 2\<rparr>] \<and>
   get_projects (Some 9)
     (snd (create_project 7 \<lparr>ProjectCreate.name = ''Q'', user_id = 9\<rparr> example_state))
     = []"
proof -
  have n: "\<not> (\<exists>u\<in>set (users (user_repo example_state)).
              User.id' u = user_id \<lparr>ProjectCreate.name = ''Q'', user_id = 9\<rparr>)"
    by (simp add: example_state_eq)
  have l: "\<not> list_ex (\<lambda>u. User.id' u = 9) (users (user_repo example_state))"
    by (simp add: example_state_eq)
  have r: "reachable example_state"
    by (rule reachable_by_weaken [OF example_state_reachable_by])
  have g: "get_projects None example_state
      = [\<lparr>ProjectCreate.name = ''P'', user_id = 1, Project.id' = 2\<rparr>]"
    "get_projects (Some 9) example_state = []"
    by (simp_all add: example_state_eq get_projects_def ProjectRepository_list_def)
  from create_project_unknown_user_rejected
      [of example_state "\<lparr>ProjectCreate.name = ''Q'', user_id = 9\<rparr>" 7 None] n
    create_project_unknown_user_rejected
      [of example_state "\<lparr>ProjectCreate.name = ''Q'', user_id = 9\<rparr>" 7 "Some 9"]
  have "create_project 7 \<lparr>ProjectCreate.name = ''Q'', user_id = 9\<rparr> example_state
     = (Inl (HTTPException 400 ''User does not exist''), example_state)"
    "response_status
     (fst (create_project 7 \<lparr>ProjectCreate.name = ''Q'', user_id = 9\<rparr> example_state)) = 400"
    "get_projects None
     (snd (create_project 7 \<lparr>ProjectCreate.name = ''Q'', user_id = 9\<rparr> example_state))
     = get_projects None example_state"
    "get_projects (Some 9)
     (snd (create_project 7 \<lparr>ProjectCreate.name = ''Q'', user_id = 9\<rparr> example_state))
     = get_projects (Some 9) example_state"
    by blast+
  with l r g show ?thesis by simp
qed

text \<open>
  C7. When a stored User has the \<^verbatim>\<open>id\<close> that the payload names as \<^verbatim>\<open>user_id\<close>,
  \<^verbatim>\<open>POST /projects\<close> returns the new Project and appends it, so it comes last in
  the full listing and last in the listing of that user. In every state
  \<^verbatim>\<open>GET /projects?user_id=uid\<close> is the full listing \<^verbatim>\<open>GET /projects\<close> filtered by
  \<^verbatim>\<open>user_id == uid\<close>: the Projects of that user and no others, in the order of the
  store.
\<close>

theorem create_project_and_filtered_listing:
  "((\<exists>u\<in>set (users (user_repo s)). User.id' u = user_id project) \<longrightarrow>
      create_project uuid4 project s =
        (Inr \<lparr>ProjectCreate.name = ProjectCreate.name project, user_id = user_id project,
              Project.id' = uuid4\<rparr>,
         s\<lparr>project_repo := (project_repo s)\<lparr>projects := projects (project_repo s) @
            [\<lparr>ProjectCreate.name = ProjectCreate.name project, user_id = user_id project,
              Project.id' = uuid4\<rparr>]\<rparr>\<rparr>) \<and>
      response_status (fst (create_project uuid4 project s)) = 200 \<and>
      get_projects None (snd (create_project uuid4 project s)) =
        get_projects None s @
          [\<lparr>ProjectCreate.name = ProjectCreate.name project, user_id = user_id project,
            Project.id' = uuid4\<rparr>] \<and>
      get_projects (Some (user_id project)) (snd (create_project uuid4 project s)) =
        get_projects (Some (user_id project)) s @
          [\<lparr>ProjectCreate.name = ProjectCreate.name project, user_id = user_id project,
            Project.id' = uuid4\<rparr>]) \<and>
   get_projects None s = projects (project_repo s) \<and>
   get_projects (Some uid) s = filter (\<lambda>p. user_id p = uid) (get_projects None s) \<and>
   subseq (get_projects (Some uid) s) (get_projects None s) \<and>
   set (get_projects (Some uid) s) = {p \<in> set (projects (project_repo s)). user_id p = uid}"
proof (intro conjI impI)
  assume u: "\<exists>u\<in>set (users (user_repo s)). User.id' u = user_id project"
  show eq: "create_project uuid4 project s =
        (Inr \<lparr>ProjectCreate.name = ProjectCreate.name project, user_id = user_id project,
              Project.id' = uuid4\<rparr>,
         s\<lparr>project_repo := (project_repo s)\<lparr>projects := projects (project_repo s) @
            [\<lparr>ProjectCreate.name = ProjectCreate.name project, user_id = user_id project,
              Project.id' = uuid4\<rparr>]\<rparr>\<rparr>)"
    by (rule create_project_accepted [OF u])
  show "response_status (fst (create_project uuid4 project s)) = 200"
    by (simp add: eq response_status_def)
  show "get_projects None (snd (create_project uuid4 project s)) =
        get_projects None s @
          [\<lparr>ProjectCreate.name = ProjectCreate.name project, user_id = user_id project,
            Project.id' = uuid4\<rparr>]"
    by (simp add: eq get_projects_def ProjectRepository_list_def)
  show "get_projects (Some (user_id project)) (snd (create_project uuid4 project s)) =
        get_projects (Some (user_id project)) s @
          [\<lparr>ProjectCreate.name = ProjectCreate.name project, user_id = user_id project,
            Project.id' = uuid4\<rparr>]"
    by (simp add: eq get_projects_def ProjectRepository_list_def)
next
  show "get_projects None s = projects (project_repo s)"
    by (simp add: get_projects_def ProjectRepository_list_def)
  show "get_projects (Some uid) s = filter (\<lambda>p. user_id p = uid) (get_projects None s)"
    by (simp add: get_projects_def ProjectRepository_list_def)
  show "subseq (get_projects (Some uid) s) (get_projects None s)"
    by (simp add: get_projects_def ProjectRepository_list_def)
  show "set (get_projects (Some uid) s) = {p \<in> set (projects (project_repo s)). user_id p = uid}"
    by (auto simp: get_projects_def ProjectRepository_list_def)
qed

text \<open>In the scenario, a second project for the stored user 1.\<close>

theorem create_project_and_filtered_listing_witness:
  "list_ex (\<lambda>u. User.id' u = 1) (users (user_repo example_state)) \<and>
   fst (create_project 7 \<lparr>ProjectCreate.name = ''Q'', user_id = 1\<rparr> example_state)
     = Inr \<lparr>ProjectCreate.name = ''Q'', user_id = 1, Project.id' = 7\<rparr> \<and>
   get_projects (Some 1)
     (snd (create_project 7 \<lparr>ProjectCreate.name = ''Q'', user_id = 1\<rparr> example_state))
     = [\<lparr>ProjectCreate.name = ''P'', user_id = 1, Project.id' = 2\<rparr>,
        \<lparr>ProjectCreate.name = ''Q'', user_id = 1, Project.id' = 7\<rparr>] \<and>
   get_projects (Some 9) example_state = []"
proof -
  have u: "\<exists>u\<in>set (users (user_repo example_state)).
             User.id' u = user_id \<lparr>ProjectCreate.name = ''Q'', user_id = 1\<rparr>"
    by (simp add: example_state_eq)
  have l: "list_ex (\<lambda>u. User.id' u = 1) (users (user_repo example_state))"
    by (simp add: example_state_eq)
  note t = create_project_and_filtered_listing
      [of example_state "\<lparr>ProjectCreate.name = ''Q'', user_id = 1\<rparr>" 7]
  note a = t [of 1, THEN conjunct1, THEN mp, OF u]
  from a [THEN conjunct1] have 1: "create_project 7
        \<lparr>ProjectCreate.name = ''Q'', user_id = 1\<rparr> example_state =
        (Inr \<lparr>ProjectCreate.name = ''Q'', user_id = 1, Project.id' = 7\<rparr>,
         example_state\<lparr>project_repo := (project_repo example_state)
           \<lparr>projects := projects (project_repo example_state) @
            [\<lparr>ProjectCreate.name = ''Q'', user_id = 1, Project.id' = 7\<rparr>]\<rparr>\<rparr>)"
    by simp
  from a [THEN conjunct2, THEN conjunct2, THEN conjunct2]
  have 2: "get_projects (Some 1)
     (snd (create_project 7 \<lparr>ProjectCreate.name = ''Q'', user_id = 1\<rparr> example_state))
     = get_projects (Some 1) example_state @
        [\<lparr>ProjectCreate.name = ''Q'', user_id = 1, Project.id' = 7\<rparr>]"
    by simp
  from t [of 1] have 3: "get_projects (Some 1) example_state
      = filter (\<lambda>p. user_id p = 1) (projects (project_repo example_state))"
    by simp
  from t [of 9] have 4: "get_projects (Some 9) example_state
      = filter (\<lambda>p. user_id p = 9) (projects (project_repo example_state))"
    by simp
  have 5: "filter (\<lambda>p. user_id p = 1) (projects (project_repo example_state))
      = [\<lparr>ProjectCreate.name = ''P'', user_id = 1, Project.id' = 2\<rparr>]"
    "filter (\<lambda>p. user_id p = 9) (projects (project_repo example_state)) = []"
    by (simp_all add: example_state_eq)
  from l 1 2 3 4 5 show ?thesis by simp
qed

text \<open>
  C8. When exactly one stored Task has the \<^verbatim>\<open>id\<close> \<open>task_id\<close>, \<^verbatim>\<open>DELETE /tasks/{task_id}\<close>
  returns \<^verbatim>\<open>{"message": "Task deleted"}\<close> with status 200 and leaves no Task with
  that \<^verbatim>\<open>id\<close>; the same request on the resulting state raises
  \<^verbatim>\<open>HTTPException(404, "Task not found")\<close> and leaves that state as it is.
\<close>

theorem delete_task_twice:
  "length (filter (\<lambda>t. Task.id' t = task_id) (tasks (task_repo s))) = 1 \<longrightarrow>
     fst (delete_task task_id s) = Inr [(''message'', ''Task deleted'')] \<and>
     response_status (fst (delete_task task_id s)) = 200 \<and>
     \<not> (\<exists>t\<in>set (tasks (task_repo (snd (delete_task task_id s)))). Task.id' t = task_id) \<and>
     delete_task task_id (snd (delete_task task_id s))
       = (Inl (HTTPException 404 ''Task not found''), snd (delete_task task_id s)) \<and>
     response_status (fst (delete_task task_id (snd (delete_task task_id s)))) = 404"
proof
  assume one: "length (filter (\<lambda>t. Task.id' t = task_id) (tasks (task_repo s))) = 1"
  then have "filter (\<lambda>t. Task.id' t = task_id) (tasks (task_repo s)) \<noteq> []" by auto
  then have "\<exists>x\<in>set (tasks (task_repo s)). Task.id' x = task_id"
    by (simp add: filter_empty_conv)
  then obtain pre t post where ts: "tasks (task_repo s) = pre @ t # post"
    and t: "Task.id' t = task_id" and pre: "\<forall>x\<in>set pre. Task.id' x \<noteq> task_id"
    using split_list_first_prop [of "tasks (task_repo s)" "\<lambda>x. Task.id' x = task_id"] by blast
  from pre have fpre: "filter (\<lambda>t. Task.id' t = task_id) pre = []"
    by (simp add: filter_empty_conv)
  from one have "filter (\<lambda>t. Task.id' t = task_id) post = []"
    by (simp add: ts t fpre)
  then have post: "\<forall>x\<in>set post. Task.id' x \<noteq> task_id"
    by (simp add: filter_empty_conv)
  have eq: "delete_task task_id s =
      (Inr [(''message'', ''Task deleted'')],
       s\<lparr>task_repo := (task_repo s)\<lparr>tasks := pre @ post\<rparr>\<rparr>)"
    by (rule delete_task_first [OF ts t pre])
  have gone: "\<forall>x\<in>set (tasks (task_repo (snd (delete_task task_id s)))). Task.id' x \<noteq> task_id"
    using pre post by (auto simp: eq)
  have again: "delete_task task_id (snd (delete_task task_id s))
       = (Inl (HTTPException 404 ''Task not found''), snd (delete_task task_id s))"
    by (rule delete_task_absent [OF gone])
  show "fst (delete_task task_id s) = Inr [(''message'', ''Task deleted'')] \<and>
     response_status (fst (delete_task task_id s)) = 200 \<and>
     \<not> (\<exists>t\<in>set (tasks (task_repo (snd (delete_task task_id s)))). Task.id' t = task_id) \<and>
     delete_task task_id (snd (delete_task task_id s))
       = (Inl (HTTPException 404 ''Task not found''), snd (delete_task task_id s)) \<and>
     response_status (fst (delete_task task_id (snd (delete_task task_id s)))) = 404"
  proof (intro conjI)
    show "fst (delete_task task_id s) = Inr [(''message'', ''Task deleted'')]"
      by (simp add: eq)
    show "response_status (fst (delete_task task_id s)) = 200"
      by (simp add: eq response_status_def)
    show "\<not> (\<exists>t\<in>set (tasks (task_repo (snd (delete_task task_id s)))). Task.id' t = task_id)"
      using gone by blast
    show "delete_task task_id (snd (delete_task task_id s))
       = (Inl (HTTPException 404 ''Task not found''), snd (delete_task task_id s))"
      by (rule again)
    show "response_status (fst (delete_task task_id (snd (delete_task task_id s)))) = 404"
      by (simp add: again response_status_def)
  qed
qed

text \<open>In the scenario, the Task 3 deleted twice; the Task 4 stays.\<close>

theorem delete_task_twice_witness:
  "length (filter (\<lambda>t. Task.id' t = 3) (tasks (task_repo example_state))) = 1 \<and>
   fst (delete_task 3 example_state) = Inr [(''message'', ''Task deleted'')] \<and>
   response_status (fst (delete_task 3 example_state)) = 200 \<and>
   map Task.id' (tasks (task_repo (snd (delete_task 3 example_state)))) = [4] \<and>
   delete_task 3 (snd (delete_task 3 example_state))
     = (Inl (HTTPException 404 ''Task not found''), snd (delete_task 3 example_state)) \<and>
   response_status (fst (delete_task 3 (snd (delete_task 3 example_state)))) = 404"
proof -
  have one: "length (filter (\<lambda>t. Task.id' t = 3) (tasks (task_repo example_state))) = 1"
    by (simp add: example_state_eq)
  have ids: "map Task.id' (tasks (task_repo (snd (delete_task 3 example_state)))) = [4]"
    by (simp add: example_state_eq delete_task_def TaskRepository_delete_def delete_loop_Cons)
  from delete_task_twice [of 3 example_state] one ids show ?thesis by blast
qed




text \<open>
  C10. When the task list is \<open>pre @ t # post\<close>, where \<open>t\<close> has the \<^verbatim>\<open>id\<close> \<open>task_id\<close>
  and no Task of \<open>pre\<close> has it, \<^verbatim>\<open>delete\<close> leaves \<open>pre @ post\<close> and \<^verbatim>\<open>update\<close> leaves
  \<open>pre @ new_task # post\<close>: only the first match is removed or replaced, and the
  other elements keep their values and their order. Such a split exists whenever
  some Task has the \<^verbatim>\<open>id\<close>; when none has it, both leave the repository as it is.
\<close>

theorem delete_update_touch_first_match_only:
  "((\<forall>x\<in>set pre. Task.id' x \<noteq> task_id) \<and> Task.id' t = task_id \<and>
    tasks self = pre @ t # post \<longrightarrow>
      TaskRepository_delete self task_id = (True, self\<lparr>tasks := pre @ post\<rparr>) \<and>
      TaskRepository_update self task_id new_task
        = (Some new_task, self\<lparr>tasks := pre @ new_task # post\<rparr>)) \<and>
   ((\<exists>x\<in>set (tasks self). Task.id' x = task_id) \<longrightarrow>
      (\<exists>pre t post. tasks self = pre @ t # post \<and> Task.id' t = task_id \<and>
         (\<forall>x\<in>set pre. Task.id' x \<noteq> task_id))) \<and>
   ((\<forall>x\<in>set (tasks self). Task.id' x \<noteq> task_id) \<longrightarrow>
      TaskRepository_delete self task_id = (False, self) \<and>
      TaskRepository_update self task_id new_task = (None, self))"
proof (intro conjI impI)
  assume h: "(\<forall>x\<in>set pre. Task.id' x \<noteq> task_id) \<and> Task.id' t = task_id \<and>
    tasks self = pre @ t # post"
  then show "TaskRepository_delete self task_id = (True, self\<lparr>tasks := pre @ post\<rparr>)"
    by (simp add: TaskRepository_delete_def delete_loop_first)
  from h show "TaskRepository_update self task_id new_task
        = (Some new_task, self\<lparr>tasks := pre @ new_task # post\<rparr>)"
    by (simp add: TaskRepository_update_def update_loop_first)
next
  assume "\<exists>x\<in>set (tasks self). Task.id' x = task_id"
  then show "\<exists>pre t post. tasks self = pre @ t # post \<and> Task.id' t = task_id \<and>
         (\<forall>x\<in>set pre. Task.id' x \<noteq> task_id)"
    using split_list_first_prop [of "tasks self" "\<lambda>x. Task.id' x = task_id"] by blast
next
  assume h: "\<forall>x\<in>set (tasks self). Task.id' x \<noteq> task_id"
  then show "TaskRepository_delete self task_id = (False, self)"
    by (simp add: TaskRepository_delete_def delete_loop_absent)
  from h show "TaskRepository_update self task_id new_task = (None, self)"
    by (simp add: TaskRepository_update_def update_loop_absent)
qed

text \<open>
  A list of three Tasks of which the second and the third have the \<^verbatim>\<open>id\<close> 7:
  \<^verbatim>\<open>delete(7)\<close> and \<^verbatim>\<open>update(7, ...)\<close> touch the second only; \<^verbatim>\<open>delete(8)\<close> finds
  nothing.
\<close>

theorem delete_update_touch_first_match_only_witness:
  "TaskRepository_delete
     \<lparr>tasks = [\<lparr>title = ''a'', description = None, completed = False, project_id = 2, Task.id' = 5\<rparr>,
               \<lparr>title = ''b'', description = None, completed = False, project_id = 2, Task.id' = 7\<rparr>,
               \<lparr>title = ''c'', description = Some ''x'', completed = True, project_id = 2, Task.id' = 7\<rparr>]\<rparr> 7
   = (True,
     \<lparr>tasks = [\<lparr>title = ''a'', description = None, completed = False, project_id = 2, Task.id' = 5\<rparr>,
               \<lparr>title = ''c'', description = Some ''x'', completed = True, project_id = 2, Task.id' = 7\<rparr>]\<rparr>) \<and>
   TaskRepository_update
     \<lparr>tasks = [\<lparr>title = ''a'', description = None, completed = False, project_id = 2, Task.id' = 5\<rparr>,
               \<lparr>title = ''b'', description = None, completed = False, project_id = 2, Task.id' = 7\<rparr>,
               \<lparr>title = ''c'', description = Some ''x'', completed = True, project_id = 2, Task.id' = 7\<rparr>]\<rparr> 7
     example_payload
   = (Some example_payload,
     \<lparr>tasks = [\<lparr>title = ''a'', description = None, completed = False, project_id = 2, Task.id' = 5\<rparr>,
               example_payload,
               \<lparr>title = ''c'', description = Some ''x'', completed = True, project_id = 2, Task.id' = 7\<rparr>]\<rparr>) \<and>
   TaskRepository_delete
     \<lparr>tasks = [\<lparr>title = ''a'', description = None, completed = False, project_id = 2, Task.id' = 5\<rparr>,
               \<lparr>title = ''b'', description = None, completed = False, project_id = 2, Task.id' = 7\<rparr>,
               \<lparr>title = ''c'', description = Some ''x'', completed = True, project_id = 2, Task.id' = 7\<rparr>]\<rparr> 8
   = (False,
     \<lparr>tasks = [\<lparr>title = ''a'', description = None, completed = False, project_id = 2, Task.id' = 5\<rparr>,
               \<lparr>title = ''b'', description = None, completed = False, project_id = 2, Task.id' = 7\<rparr>,
               \<lparr>title = ''c'', description = Some ''x'', completed = True, project_id = 2, Task.id' = 7\<rparr>]\<rparr>)"
  using delete_update_touch_first_match_only
    [of "[\<lparr>title = ''a'', description = None, completed = False, project_id = 2, Task.id' = 5\<rparr>]" 7
        "\<lparr>title = ''b'', description = None, completed = False, project_id = 2, Task.id' = 7\<rparr>"
        "\<lparr>tasks = [\<lparr>title = ''a'', description = None, completed = False, project_id = 2, Task.id' = 5\<rparr>,
               \<lparr>title = ''b'', description = None, completed = False, project_id = 2, Task.id' = 7\<rparr>,
               \<lparr>title = ''c'', description = Some ''x'', completed = True, project_id = 2, Task.id' = 7\<rparr>]\<rparr>"
        "[\<lparr>title = ''c'', description = Some ''x'', completed = True, project_id = 2, Task.id' = 7\<rparr>]"
        example_payload]
    delete_update_touch_first_match_only
    [of "[]" 8
        "\<lparr>title = ''a'', description = None, completed = False, project_id = 2, Task.id' = 5\<rparr>"
        "\<lparr>tasks = [\<lparr>title = ''a'', description = None, completed = False, project_id = 2, Task.id' = 5\<rparr>,
               \<lparr>title = ''b'', description = None, completed = False, project_id = 2, Task.id' = 7\<rparr>,
               \<lparr>title = ''c'', description = Some ''x'', completed = True, project_id = 2, Task.id' = 7\<rparr>]\<rparr>"
        "[]" example_payload]
  by simp

end
